theory Spec2Isabelle
  imports Main "HOL-Library.AList"
begin

section \<open>Syntax trees and Python values\<close>

text \<open>
  The tree-sitter tree handed to the extraction rules. Only what the source reads of
  a node is kept: \<open>node.type\<close>, \<open>node.start_point\<close> and \<open>node.end_point\<close> (row, column;
  both zero-based and unsigned) and \<open>node.children\<close>.
\<close>

datatype node =
  Node (node_type: string) (start_point: "nat \<times> nat") (end_point: "nat \<times> nat")
       (children: "node list")

text \<open>
  The extraction results are plain Python dictionaries whose key sets differ from one
  language to the next, so they are modelled as such: a dictionary is an association
  list in insertion order, and a value is one of the few Python values the source
  stores.
\<close>

datatype pyval =
    VNone
  | VInt int
  | VStr string
  | VList "pyval list"
  | VDict "(string \<times> pyval) list"

type_synonym pydict = "(string \<times> pyval) list"

text \<open>
  The exceptions the modelled code can meet, with the text \<open>str(e)\<close> gives: an index
  past the last line, a file that cannot be opened or read, a parser that fails. The
  interpreter's recursion limit is not modelled (the traversals are total here), paths
  are POSIX paths, and \<open>KeyboardInterrupt\<close> and the like, which \<open>except Exception\<close>
  does not catch, are outside the model.
\<close>

datatype py_error =
    IndexError
  | OSError string
  | ParserError string

fun str_of_error :: "py_error \<Rightarrow> string" where
  "str_of_error IndexError = ''list index out of range''"
| "str_of_error (OSError m) = m"
| "str_of_error (ParserError m) = m"

section \<open>Complexity\<close>

text \<open>
  \<open>_calculate_complexity\<close>: the nested function \<open>traverse_for_complexity\<close> updates the
  nonlocal counter, here passed through the traversal.
\<close>

fun traverse_for_complexity :: "node \<Rightarrow> int \<Rightarrow> int" where
  "traverse_for_complexity (Node ty sp ep cs) complexity =
     fold traverse_for_complexity cs
       (if ty \<in> set [''if_statement'', ''while_statement'', ''for_statement'', ''except_clause'']
        then complexity + 1 else complexity)"

definition calculate_complexity :: "node \<Rightarrow> int" where
  "calculate_complexity n = traverse_for_complexity n 1"

text \<open>
  The wording of the specification: the descendants of a node at any depth, and the
  kinds that count as branching.
\<close>

fun descendants :: "node \<Rightarrow> node list" where
  "descendants (Node ty sp ep cs) = concat (map (\<lambda>c. c # descendants c) cs)"

definition is_branching :: "node \<Rightarrow> bool" where
  "is_branching n \<longleftrightarrow>
     node_type n = ''if_statement'' \<or> node_type n = ''while_statement'' \<or>
     node_type n = ''for_statement'' \<or> node_type n = ''except_clause''"



section \<open>Reading source text\<close>

text \<open>
  \<open>content.split('\n')\<close>. The result is never empty: a text with k newline characters
  has k + 1 lines, the last one empty when the text ends with a newline. A character
  of the model stands for a code point below 256.
\<close>

fun split_nl :: "string \<Rightarrow> string list" where
  "split_nl [] = [[]]"
| "split_nl (c # cs) =
     (if c = CHR 0x0A then [] # split_nl cs
      else (case split_nl cs of l # ls \<Rightarrow> (c # l) # ls | [] \<Rightarrow> [[c]]))"

text \<open>
  \<open>lines[row][start_col:end_col]\<close> with the row and the start column of \<open>first\<close> and the end
  column of \<open>last\<close>: the index raises IndexError when the row is past the last line, the
  slice never raises (it is cut at the end of the line, and empty when the end column
  is not after the start column).
\<close>

definition line_slice :: "string list \<Rightarrow> nat \<times> nat \<Rightarrow> nat \<times> nat \<Rightarrow> py_error + string" where
  "line_slice lines sp ep =
     (if fst sp < length lines
      then Inr (take (snd ep - snd sp) (drop (snd sp) (lines ! fst sp)))
      else Inl IndexError)"

definition node_text :: "string list \<Rightarrow> node \<Rightarrow> py_error + string" where
  "node_text lines n = line_slice lines (start_point n) (end_point n)"

text \<open>The loops \<open>for child in node.children: if child.type == ty: ...; break\<close>.\<close>

definition first_child_of_type :: "string \<Rightarrow> node \<Rightarrow> node option" where
  "first_child_of_type ty n = find (\<lambda>child. node_type child = ty) (children n)"

text \<open>
  The loop over the children of the parameter list: the text of every direct
  \<open>identifier\<close> child, in order; the first failing index ends the loop with its
  exception.
\<close>

fun param_names :: "string list \<Rightarrow> node list \<Rightarrow> py_error + string list" where
  "param_names lines [] = Inr []"
| "param_names lines (param_child # rest) =
     (if node_type param_child = ''identifier'' then
        (case node_text lines param_child of
           Inl e \<Rightarrow> Inl e
         | Inr param_name \<Rightarrow>
             (case param_names lines rest of
                Inl e \<Rightarrow> Inl e
              | Inr parameters \<Rightarrow> Inr (param_name # parameters)))
      else param_names lines rest)"

section \<open>Python extraction rules\<close>

text \<open>
  The docstring part of \<open>_extract_python_function\<close>. The statement inspected is
  \<open>body_node.children[1]\<close>, present only when the block has more than one child.
\<close>

definition extract_docstring :: "node \<Rightarrow> string list \<Rightarrow> py_error + string option" where
  "extract_docstring n lines =
     (case first_child_of_type ''block'' n of
        None \<Rightarrow> Inr None
      | Some body_node \<Rightarrow>
          (if 1 < length (children body_node) then
             (let first_stmt = children body_node ! 1 in
              if node_type first_stmt = ''expression_statement'' then
                (case children first_stmt of
                   [] \<Rightarrow> Inr None
                 | expr_child # _ \<Rightarrow>
                     (if node_type expr_child = ''string'' then
                        (case node_text lines expr_child of
                           Inl e \<Rightarrow> Inl e
                         | Inr docstring \<Rightarrow> Inr (Some docstring))
                      else Inr None))
              else Inr None)
           else Inr None))"

definition opt_str :: "string option \<Rightarrow> pyval" where
  "opt_str x = (case x of None \<Rightarrow> VNone | Some s \<Rightarrow> VStr s)"

text \<open>
  \<open>_extract_python_function\<close>. The body below is the \<open>try\<close> block; the function itself
  turns every exception into the result None.
\<close>

definition extract_python_function_body :: "node \<Rightarrow> string list \<Rightarrow> py_error + pydict option" where
  "extract_python_function_body n lines =
     (let start_line = fst (start_point n); end_line = fst (end_point n) in
      case first_child_of_type ''identifier'' n of
        None \<Rightarrow> Inr None
      | Some name_node \<Rightarrow>
          (case node_text lines name_node of
             Inl e \<Rightarrow> Inl e
           | Inr func_name \<Rightarrow>
               (case (case first_child_of_type ''parameters'' n of
                        None \<Rightarrow> Inr []
                      | Some params_node \<Rightarrow> param_names lines (children params_node)) of
                  Inl e \<Rightarrow> Inl e
                | Inr parameters \<Rightarrow>
                    (case extract_docstring n lines of
                       Inl e \<Rightarrow> Inl e
                     | Inr docstring \<Rightarrow>
                         Inr (Some
                           [(''name'', VStr func_name),
                            (''start_line'', VInt (int start_line + 1)),
                            (''end_line'', VInt (int end_line + 1)),
                            (''parameters'', VList (map VStr parameters)),
                            (''docstring'', opt_str docstring),
                            (''complexity'', VInt (calculate_complexity n))])))))"

definition extract_python_function :: "node \<Rightarrow> string list \<Rightarrow> pydict option" where
  "extract_python_function n lines =
     (case extract_python_function_body n lines of Inl e \<Rightarrow> None | Inr r \<Rightarrow> r)"

text \<open>
  The method loop of \<open>_extract_python_class\<close>: every direct \<open>function_definition\<close> child
  of the class body whose extraction gives a record.
\<close>

fun class_methods :: "string list \<Rightarrow> node list \<Rightarrow> pyval list" where
  "class_methods lines [] = []"
| "class_methods lines (child # rest) =
     (if node_type child = ''function_definition'' then
        (case extract_python_function child lines of
           None \<Rightarrow> class_methods lines rest
         | Some method_info \<Rightarrow> VDict method_info # class_methods lines rest)
      else class_methods lines rest)"

definition extract_python_class_body :: "node \<Rightarrow> string list \<Rightarrow> py_error + pydict option" where
  "extract_python_class_body n lines =
     (let start_line = fst (start_point n); end_line = fst (end_point n) in
      case first_child_of_type ''identifier'' n of
        None \<Rightarrow> Inr None
      | Some name_node \<Rightarrow>
          (case node_text lines name_node of
             Inl e \<Rightarrow> Inl e
           | Inr class_name \<Rightarrow>
               (let methods =
                  (case first_child_of_type ''block'' n of
                     None \<Rightarrow> []
                   | Some body_node \<Rightarrow> class_methods lines (children body_node))
                in Inr (Some
                     [(''name'', VStr class_name),
                      (''start_line'', VInt (int start_line + 1)),
                      (''end_line'', VInt (int end_line + 1)),
                      (''methods'', VList methods),
                      (''attributes'', VList [])]))))"

definition extract_python_class :: "node \<Rightarrow> string list \<Rightarrow> pydict option" where
  "extract_python_class n lines =
     (case extract_python_class_body n lines of Inl e \<Rightarrow> None | Inr r \<Rightarrow> r)"

definition extract_python_import :: "node \<Rightarrow> string list \<Rightarrow> pydict option" where
  "extract_python_import n lines =
     (let start_line = fst (start_point n) in
      case node_text lines n of
        Inl e \<Rightarrow> None
      | Inr import_text \<Rightarrow>
          Some [(''type'', VStr (node_type n)),
                (''statement'', VStr import_text),
                (''line'', VInt (int start_line + 1))])"

text \<open>
  \<open>_extract_python_variable\<close>: when the first child is not an identifier the function
  falls off its end and returns None.
\<close>

definition extract_python_variable :: "node \<Rightarrow> string list \<Rightarrow> pydict option" where
  "extract_python_variable n lines =
     (let start_line = fst (start_point n) in
      case children n of
        [] \<Rightarrow> None
      | left_node # _ \<Rightarrow>
          (if node_type left_node = ''identifier'' then
             (case node_text lines left_node of
                Inl e \<Rightarrow> None
              | Inr var_name \<Rightarrow>
                  Some [(''name'', VStr var_name),
                        (''line'', VInt (int start_line + 1)),
                        (''type'', VStr ''variable'')])
           else None))"

section \<open>The walker\<close>

text \<open>
  \<open>result[key].append(item)\<close> on the result dictionary the nested \<open>traverse_node\<close>
  closes over. Every key the walkers append to is created with an empty list before
  the traversal starts.
\<close>

definition list_append :: "string \<Rightarrow> pydict \<Rightarrow> pydict \<Rightarrow> pydict" where
  "list_append key item result =
     (case map_of result key of
        Some (VList xs) \<Rightarrow> AList.update key (VList (xs @ [VDict item])) result
      | _ \<Rightarrow> result)"

definition append_if :: "string \<Rightarrow> pydict option \<Rightarrow> pydict \<Rightarrow> pydict" where
  "append_if key info result =
     (case info of None \<Rightarrow> result | Some item \<Rightarrow> list_append key item result)"

fun traverse_node :: "string list \<Rightarrow> node \<Rightarrow> pydict \<Rightarrow> pydict" where
  "traverse_node lines (Node ty sp ep cs) result =
     fold (traverse_node lines) cs
       (if ty = ''function_definition'' then
          append_if ''functions'' (extract_python_function (Node ty sp ep cs) lines) result
        else if ty = ''class_definition'' then
          append_if ''classes'' (extract_python_class (Node ty sp ep cs) lines) result
        else if ty \<in> set [''import_statement'', ''import_from_statement''] then
          append_if ''imports'' (extract_python_import (Node ty sp ep cs) lines) result
        else if ty = ''assignment'' then
          append_if ''variables'' (extract_python_variable (Node ty sp ep cs) lines) result
        else result)"

definition parse_python :: "node \<Rightarrow> string \<Rightarrow> pydict" where
  "parse_python tree content =
     traverse_node (split_nl content) tree
       [(''language'', VStr ''python''),
        (''functions'', VList []),
        (''classes'', VList []),
        (''imports'', VList []),
        (''variables'', VList []),
        (''errors'', VList [])]"

section \<open>JavaScript and TypeScript extraction rules\<close>

text \<open>
  The name loop of \<open>_extract_js_function\<close> and \<open>_extract_js_class\<close>: \<open>"anonymous"\<close> unless
  an identifier child is found, whose text then replaces it.
\<close>

definition js_name :: "node \<Rightarrow> string list \<Rightarrow> py_error + string" where
  "js_name n lines =
     (case first_child_of_type ''identifier'' n of
        None \<Rightarrow> Inr ''anonymous''
      | Some child \<Rightarrow> node_text lines child)"

definition extract_js_function :: "node \<Rightarrow> string list \<Rightarrow> pydict option" where
  "extract_js_function n lines =
     (let start_line = fst (start_point n); end_line = fst (end_point n) in
      case js_name n lines of
        Inl e \<Rightarrow> None
      | Inr func_name \<Rightarrow>
          Some [(''name'', VStr func_name),
                (''start_line'', VInt (int start_line + 1)),
                (''end_line'', VInt (int end_line + 1)),
                (''parameters'', VList []),
                (''type'', VStr (node_type n))])"

definition extract_js_class :: "node \<Rightarrow> string list \<Rightarrow> pydict option" where
  "extract_js_class n lines =
     (let start_line = fst (start_point n); end_line = fst (end_point n) in
      case js_name n lines of
        Inl e \<Rightarrow> None
      | Inr class_name \<Rightarrow>
          Some [(''name'', VStr class_name),
                (''start_line'', VInt (int start_line + 1)),
                (''end_line'', VInt (int end_line + 1)),
                (''methods'', VList [])])"

definition extract_js_import :: "node \<Rightarrow> string list \<Rightarrow> pydict option" where
  "extract_js_import n lines =
     (let start_line = fst (start_point n) in
      case node_text lines n of
        Inl e \<Rightarrow> None
      | Inr import_text \<Rightarrow>
          Some [(''statement'', VStr import_text),
                (''line'', VInt (int start_line + 1))])"

fun traverse_node_js :: "string list \<Rightarrow> node \<Rightarrow> pydict \<Rightarrow> pydict" where
  "traverse_node_js lines (Node ty sp ep cs) result =
     fold (traverse_node_js lines) cs
       (if ty \<in> set [''function_declaration'', ''function_expression'', ''arrow_function''] then
          append_if ''functions'' (extract_js_function (Node ty sp ep cs) lines) result
        else if ty = ''class_declaration'' then
          append_if ''classes'' (extract_js_class (Node ty sp ep cs) lines) result
        else if ty \<in> set [''import_statement'', ''import_clause''] then
          append_if ''imports'' (extract_js_import (Node ty sp ep cs) lines) result
        else result)"

definition parse_javascript :: "node \<Rightarrow> string \<Rightarrow> pydict" where
  "parse_javascript tree content =
     traverse_node_js (split_nl content) tree
       [(''language'', VStr ''javascript''),
        (''functions'', VList []),
        (''classes'', VList []),
        (''imports'', VList []),
        (''exports'', VList []),
        (''variables'', VList []),
        (''errors'', VList [])]"

section \<open>The languages without extraction rules\<close>

definition parse_java :: "node \<Rightarrow> string \<Rightarrow> pydict" where
  "parse_java tree content =
     [(''language'', VStr ''java''),
      (''functions'', VList []),
      (''classes'', VList []),
      (''imports'', VList []),
      (''errors'', VList [])]"

definition parse_cpp :: "node \<Rightarrow> string \<Rightarrow> pydict" where
  "parse_cpp tree content =
     [(''language'', VStr ''cpp''),
      (''functions'', VList []),
      (''classes'', VList []),
      (''includes'', VList []),
      (''errors'', VList [])]"

definition parse_go :: "node \<Rightarrow> string \<Rightarrow> pydict" where
  "parse_go tree content =
     [(''language'', VStr ''go''),
      (''functions'', VList []),
      (''structs'', VList []),
      (''imports'', VList []),
      (''errors'', VList [])]"

definition parse_rust :: "node \<Rightarrow> string \<Rightarrow> pydict" where
  "parse_rust tree content =
     [(''language'', VStr ''rust''),
      (''functions'', VList []),
      (''structs'', VList []),
      (''imports'', VList []),
      (''errors'', VList [])]"

section \<open>Language detection\<close>

text \<open>
  \<open>os.path.splitext(file_path)[1]\<close> of the POSIX path module: the extension starts at
  the last dot of the last path component, and is empty when that component has no
  dot or has only dots before it.
\<close>

definition splitext_ext :: "string \<Rightarrow> string" where
  "splitext_ext p =
     (let r = rev p;
          tail = takeWhile (\<lambda>c. c \<noteq> CHR ''.'' \<and> c \<noteq> CHR ''/'') r;
          rest = dropWhile (\<lambda>c. c \<noteq> CHR ''.'' \<and> c \<noteq> CHR ''/'') r
      in case rest of
           [] \<Rightarrow> []
         | d # stem \<Rightarrow>
             (if d = CHR ''.'' \<and>
                 list_ex (\<lambda>c. c \<noteq> CHR ''.'') (takeWhile (\<lambda>c. c \<noteq> CHR ''/'') stem)
              then CHR ''.'' # rev tail else []))"

text \<open>
  \<open>str.lower()\<close> on the letters A to Z. The keys of the extension table are ASCII, so
  the lookup below does not depend on how other characters are lowered.
\<close>

definition lower_char :: "char \<Rightarrow> char" where
  "lower_char c =
     (case map_of (zip ''ABCDEFGHIJKLMNOPQRSTUVWXYZ'' ''abcdefghijklmnopqrstuvwxyz'') c of
        None \<Rightarrow> c
      | Some l \<Rightarrow> l)"

definition lower :: "string \<Rightarrow> string" where
  "lower s = map lower_char s"

definition extension_map :: "(string \<times> string) list" where
  "extension_map =
     [(''.py'', ''python''),
      (''.js'', ''javascript''),
      (''.jsx'', ''javascript''),
      (''.ts'', ''typescript''),
      (''.tsx'', ''typescript''),
      (''.java'', ''java''),
      (''.cpp'', ''cpp''),
      (''.cxx'', ''cpp''),
      (''.cc'', ''cpp''),
      (''.c'', ''c''),
      (''.go'', ''go''),
      (''.rs'', ''rust'')]"

definition detect_language :: "string \<Rightarrow> string option" where
  "detect_language file_path = map_of extension_map (lower (splitext_ext file_path))"

section \<open>Files, parsers and the fallback\<close>

text \<open>
  The world outside the program. Reading a file either gives its decoded text or
  raises; the file system may change while the program runs, so it is indexed by a
  clock that every read advances. A registered parser maps a text to a tree, or
  raises; \<open>self.parsers\<close> maps the language names whose grammar loaded to their parser.
\<close>

type_synonym filesystem = "nat \<Rightarrow> string \<Rightarrow> py_error + string"

type_synonym parser = "string \<Rightarrow> py_error + node"

type_synonym parsers = "string \<Rightarrow> parser option"

definition open_read :: "filesystem \<Rightarrow> string \<Rightarrow> nat \<Rightarrow> (py_error + string) \<times> nat" where
  "open_read fs file_path t = (fs t file_path, Suc t)"

text \<open>Python truth of an optional string: None and the empty string are false.\<close>

definition truthy :: "string option \<Rightarrow> bool" where
  "truthy x = (case x of None \<Rightarrow> False | Some s \<Rightarrow> s \<noteq> [])"

definition or_str :: "string option \<Rightarrow> string \<Rightarrow> string" where
  "or_str x d = (case x of None \<Rightarrow> d | Some s \<Rightarrow> if s = [] then d else s)"

text \<open>Whitespace as \<open>str.strip()\<close> sees it, among the code points below 256.\<close>

definition py_isspace :: "char \<Rightarrow> bool" where
  "py_isspace c =
     (let k = (of_char c :: nat)
      in (9 \<le> k \<and> k \<le> 13) \<or> (28 \<le> k \<and> k \<le> 32) \<or> k = 133 \<or> k = 160)"

definition strip :: "string \<Rightarrow> string" where
  "strip s = rev (dropWhile py_isspace (rev (dropWhile py_isspace s)))"

definition fallback_parse :: "filesystem \<Rightarrow> string \<Rightarrow> nat \<Rightarrow> (py_error + pydict) \<times> nat" where
  "fallback_parse fs file_path t =
     (case open_read fs file_path t of
        (Inr content, t') \<Rightarrow>
          (let lines = split_nl content;
               language = or_str (detect_language file_path) ''unknown''
           in (Inr [(''language'', VStr language),
                    (''functions'', VList []),
                    (''classes'', VList []),
                    (''imports'', VList []),
                    (''lines_of_code'', VInt (int (length (filter (\<lambda>line. strip line \<noteq> []) lines)))),
                    (''total_lines'', VInt (int (length lines))),
                    (''errors'', VList [VStr ''Fallback parsing used - limited functionality''])],
               t'))
      | (Inl e, t') \<Rightarrow>
          (Inr [(''language'', VStr ''unknown''),
                (''functions'', VList []),
                (''classes'', VList []),
                (''imports'', VList []),
                (''errors'', VList [VStr (''Parsing failed: '' @ str_of_error e)])],
           t'))"

section \<open>Parsing one file\<close>

text \<open>The first statement of \<open>parse_file\<close>: the language the rest of the function uses.\<close>

definition resolve_language :: "string \<Rightarrow> string option \<Rightarrow> string option" where
  "resolve_language file_path language =
     (if \<not> truthy language then detect_language file_path else language)"

text \<open>The \<open>try\<close> block of \<open>parse_file\<close>.\<close>

definition parse_file_body ::
  "parsers \<Rightarrow> filesystem \<Rightarrow> string \<Rightarrow> string option \<Rightarrow> nat \<Rightarrow> (py_error + pydict) \<times> nat" where
  "parse_file_body ps fs file_path language0 t =
     (case resolve_language file_path language0 of
        None \<Rightarrow> fallback_parse fs file_path t
      | Some language \<Rightarrow>
          (if language = [] then fallback_parse fs file_path t
           else
             (case ps language of
                None \<Rightarrow> fallback_parse fs file_path t
              | Some parser \<Rightarrow>
                  (case open_read fs file_path t of
                     (Inl e, t') \<Rightarrow> (Inl e, t')
                   | (Inr content, t') \<Rightarrow>
                       (case parser content of
                          Inl e \<Rightarrow> (Inl e, t')
                        | Inr tree \<Rightarrow>
                            (if language = ''python'' then
                               (Inr (parse_python tree content), t')
                             else if language \<in> set [''javascript'', ''typescript''] then
                               (Inr (parse_javascript tree content), t')
                             else if language = ''java'' then
                               (Inr (parse_java tree content), t')
                             else if language \<in> set [''cpp'', ''c''] then
                               (Inr (parse_cpp tree content), t')
                             else if language = ''go'' then
                               (Inr (parse_go tree content), t')
                             else if language = ''rust'' then
                               (Inr (parse_rust tree content), t')
                             else fallback_parse fs file_path t'))))))"

text \<open>\<open>parse_file\<close>: whatever the block raises, the handler returns the fallback.\<close>

definition parse_file ::
  "parsers \<Rightarrow> filesystem \<Rightarrow> string \<Rightarrow> string option \<Rightarrow> nat \<Rightarrow> (py_error + pydict) \<times> nat" where
  "parse_file ps fs file_path language t =
     (case parse_file_body ps fs file_path language t of
        (Inl e, t') \<Rightarrow> fallback_parse fs file_path t'
      | (Inr r, t') \<Rightarrow> (Inr r, t'))"

section \<open>Parsing a batch\<close>

text \<open>
  A file descriptor as \<open>get_file_list\<close> builds it; the result stores it as the
  dictionary it is.
\<close>

record file_info =
  fi_path :: string
  fi_full_path :: string
  fi_language :: "string option"
  fi_size :: nat

definition file_info_val :: "file_info \<Rightarrow> pyval" where
  "file_info_val fi =
     VDict [(''path'', VStr (fi_path fi)),
            (''full_path'', VStr (fi_full_path fi)),
            (''language'', opt_str (fi_language fi)),
            (''size'', VInt (int (fi_size fi)))]"

text \<open>
  The body of the loop of \<open>batch_parse_files\<close>, that is the value stored under the
  descriptor's path: the result of \<open>parse_file\<close> with the descriptor added, or the
  handler's dictionary. Then the loop itself, with the \<open>results\<close> dictionary and the
  clock passed along; an assignment to a key already present replaces its value and
  keeps its place.
\<close>

definition batch_entry :: "parsers \<Rightarrow> filesystem \<Rightarrow> file_info \<Rightarrow> nat \<Rightarrow> pydict \<times> nat" where
  "batch_entry ps fs fi t =
     (case parse_file ps fs (fi_full_path fi) (fi_language fi) t of
        (Inr parsed_result, t') \<Rightarrow>
          (AList.update ''file_info'' (file_info_val fi) parsed_result, t')
      | (Inl e, t') \<Rightarrow>
          ([(''language'', VStr (or_str (fi_language fi) ''unknown'')),
            (''functions'', VList []),
            (''classes'', VList []),
            (''imports'', VList []),
            (''errors'', VList [VStr (''Parsing failed: '' @ str_of_error e)]),
            (''file_info'', file_info_val fi)], t'))"

fun batch_loop ::
  "parsers \<Rightarrow> filesystem \<Rightarrow> file_info list \<Rightarrow> (string \<times> pydict) list \<Rightarrow> nat
     \<Rightarrow> (string \<times> pydict) list \<times> nat" where
  "batch_loop ps fs [] results t = (results, t)"
| "batch_loop ps fs (fi # rest) results t =
     (case batch_entry ps fs fi t of
        (entry, t') \<Rightarrow> batch_loop ps fs rest (AList.update (fi_path fi) entry results) t')"

definition batch_parse_files ::
  "parsers \<Rightarrow> filesystem \<Rightarrow> file_info list \<Rightarrow> nat \<Rightarrow> (string \<times> pydict) list \<times> nat" where
  "batch_parse_files ps fs file_list t = batch_loop ps fs file_list [] t"

section \<open>Example inputs\<close>

text \<open>
  A Python file and the tree the Python grammar gives for it (rows and columns
  zero-based, anonymous tokens included as children):
  \<^verbatim>\<open>
  class A:
      def m(self, x):
          "doc"
          if x:
              for i in x:
                  pass
          return x
  \<close>
\<close>

definition ex_content :: string where
  "ex_content =
     ''class A:'' @ [CHR 0x0A] @
     ''    def m(self, x):'' @ [CHR 0x0A] @
     ''        '' @ [CHR 0x22] @ ''doc'' @ [CHR 0x22, CHR 0x0A] @
     ''        if x:'' @ [CHR 0x0A] @
     ''            for i in x:'' @ [CHR 0x0A] @
     ''                pass'' @ [CHR 0x0A] @
     ''        return x'' @ [CHR 0x0A]"

definition ex_lines :: "string list" where
  "ex_lines =
     [''class A:'',
      ''    def m(self, x):'',
      ''        '' @ [CHR 0x22] @ ''doc'' @ [CHR 0x22],
      ''        if x:'',
      ''            for i in x:'',
      ''                pass'',
      ''        return x'',
      []]"

definition ex_docstring_stmt :: node where
  "ex_docstring_stmt =
     Node ''expression_statement'' (2, 8) (2, 13)
       [Node ''string'' (2, 8) (2, 13)
          [Node ''string_start'' (2, 8) (2, 9) [],
           Node ''string_content'' (2, 9) (2, 12) [],
           Node ''string_end'' (2, 12) (2, 13) []]]"

definition ex_if_stmt :: node where
  "ex_if_stmt =
     Node ''if_statement'' (3, 8) (5, 20)
       [Node ''if'' (3, 8) (3, 10) [],
        Node ''identifier'' (3, 11) (3, 12) [],
        Node '':'' (3, 12) (3, 13) [],
        Node ''block'' (4, 12) (5, 20)
          [Node ''for_statement'' (4, 12) (5, 20)
             [Node ''for'' (4, 12) (4, 15) [],
              Node ''identifier'' (4, 16) (4, 17) [],
              Node ''in'' (4, 18) (4, 20) [],
              Node ''identifier'' (4, 21) (4, 22) [],
              Node '':'' (4, 22) (4, 23) [],
              Node ''block'' (5, 16) (5, 20)
                [Node ''pass_statement'' (5, 16) (5, 20)
                   [Node ''pass'' (5, 16) (5, 20) []]]]]]"

definition ex_method :: node where
  "ex_method =
     Node ''function_definition'' (1, 4) (6, 16)
       [Node ''def'' (1, 4) (1, 7) [],
        Node ''identifier'' (1, 8) (1, 9) [],
        Node ''parameters'' (1, 9) (1, 18)
          [Node ''('' (1, 9) (1, 10) [],
           Node ''identifier'' (1, 10) (1, 14) [],
           Node '','' (1, 14) (1, 15) [],
           Node ''identifier'' (1, 16) (1, 17) [],
           Node '')'' (1, 17) (1, 18) []],
        Node '':'' (1, 18) (1, 19) [],
        Node ''block'' (2, 8) (6, 16)
          [ex_docstring_stmt,
           ex_if_stmt,
           Node ''return_statement'' (6, 8) (6, 16)
             [Node ''return'' (6, 8) (6, 14) [],
              Node ''identifier'' (6, 15) (6, 16) []]]]"

definition ex_class :: node where
  "ex_class =
     Node ''class_definition'' (0, 0) (6, 16)
       [Node ''class'' (0, 0) (0, 5) [],
        Node ''identifier'' (0, 6) (0, 7) [],
        Node '':'' (0, 7) (0, 8) [],
        Node ''block'' (1, 4) (6, 16) [ex_method]]"

definition ex_module :: node where
  "ex_module = Node ''module'' (0, 0) (7, 0) [ex_class]"

text \<open>
  A function without branching whose only statement is its docstring:
  \<^verbatim>\<open>
  def f():
      "doc"
  \<close>
\<close>

definition ex_plain_lines :: "string list" where
  "ex_plain_lines = [''def f():'', ''    '' @ [CHR 0x22] @ ''doc'' @ [CHR 0x22], []]"

definition ex_plain_function :: node where
  "ex_plain_function =
     Node ''function_definition'' (0, 0) (1, 9)
       [Node ''def'' (0, 0) (0, 3) [],
        Node ''identifier'' (0, 4) (0, 5) [],
        Node ''parameters'' (0, 5) (0, 7)
          [Node ''('' (0, 5) (0, 6) [], Node '')'' (0, 6) (0, 7) []],
        Node '':'' (0, 7) (0, 8) [],
        Node ''block'' (1, 4) (1, 9)
          [Node ''expression_statement'' (1, 4) (1, 9)
             [Node ''string'' (1, 4) (1, 9)
                [Node ''string_start'' (1, 4) (1, 5) [],
                 Node ''string_content'' (1, 5) (1, 8) [],
                 Node ''string_end'' (1, 8) (1, 9) []]]]]"

section \<open>Vocabulary of the properties\<close>

text \<open>The nodes of a tree in pre-order, the root first.\<close>

fun nodes :: "node \<Rightarrow> node list" where
  "nodes (Node ty sp ep cs) = Node ty sp ep cs # concat (map nodes cs)"

text \<open>
  What the rule of one node appends, as (key, record) pairs, for the Python walker and
  for the JavaScript walker; the traversals are shown below to append exactly these,
  node after node in pre-order.
\<close>

definition emit :: "string \<Rightarrow> pydict option \<Rightarrow> (string \<times> pydict) list" where
  "emit key info = (case info of None \<Rightarrow> [] | Some item \<Rightarrow> [(key, item)])"

definition py_rule :: "string list \<Rightarrow> node \<Rightarrow> (string \<times> pydict) list" where
  "py_rule lines n =
     (if node_type n = ''function_definition'' then
        emit ''functions'' (extract_python_function n lines)
      else if node_type n = ''class_definition'' then
        emit ''classes'' (extract_python_class n lines)
      else if node_type n \<in> set [''import_statement'', ''import_from_statement''] then
        emit ''imports'' (extract_python_import n lines)
      else if node_type n = ''assignment'' then
        emit ''variables'' (extract_python_variable n lines)
      else [])"

definition js_rule :: "string list \<Rightarrow> node \<Rightarrow> (string \<times> pydict) list" where
  "js_rule lines n =
     (if node_type n \<in> set [''function_declaration'', ''function_expression'', ''arrow_function''] then
        emit ''functions'' (extract_js_function n lines)
      else if node_type n = ''class_declaration'' then
        emit ''classes'' (extract_js_class n lines)
      else if node_type n \<in> set [''import_statement'', ''import_clause''] then
        emit ''imports'' (extract_js_import n lines)
      else [])"

definition append_event :: "string \<times> pydict \<Rightarrow> pydict \<Rightarrow> pydict" where
  "append_event e result = list_append (fst e) (snd e) result"

definition records_for :: "string \<Rightarrow> (string \<times> pydict) list \<Rightarrow> pyval list" where
  "records_for key evs = map (\<lambda>e. VDict (snd e)) (filter (\<lambda>e. fst e = key) evs)"

text \<open>Reading a result: a list stored under a key, the keys, the language.\<close>

definition get_list :: "pydict \<Rightarrow> string \<Rightarrow> pyval list" where
  "get_list d key = (case map_of d key of Some (VList xs) \<Rightarrow> xs | _ \<Rightarrow> [])"

definition result_keys :: "py_error + pydict \<Rightarrow> string list" where
  "result_keys r = (case r of Inl e \<Rightarrow> [] | Inr d \<Rightarrow> map fst d)"

definition result_language :: "py_error + pydict \<Rightarrow> pyval option" where
  "result_language r = (case r of Inl e \<Rightarrow> None | Inr d \<Rightarrow> map_of d ''language'')"

definition result_list :: "py_error + pydict \<Rightarrow> string \<Rightarrow> pyval list" where
  "result_list r key = (case r of Inl e \<Rightarrow> [] | Inr d \<Rightarrow> get_list d key)"

definition returns :: "(py_error + pydict) \<times> nat \<Rightarrow> bool" where
  "returns r = (case fst r of Inl e \<Rightarrow> False | Inr d \<Rightarrow> True)"

text \<open>
  Records: the line span of a function or class record lies in a file of \<open>k\<close> lines,
  counted from 1; a function record carries a complexity of at least 1; the methods
  of a class record.
\<close>

definition line_span_ok :: "nat \<Rightarrow> pyval \<Rightarrow> bool" where
  "line_span_ok k r =
     (case r of
        VDict d \<Rightarrow>
          (case (map_of d ''start_line'', map_of d ''end_line'') of
             (Some (VInt s), Some (VInt e)) \<Rightarrow> 1 \<le> s \<and> s \<le> e \<and> e \<le> int k
           | _ \<Rightarrow> False)
      | _ \<Rightarrow> False)"

definition complexity_ok :: "pyval \<Rightarrow> bool" where
  "complexity_ok r =
     (case r of
        VDict d \<Rightarrow> (case map_of d ''complexity'' of Some (VInt c) \<Rightarrow> 1 \<le> c | _ \<Rightarrow> False)
      | _ \<Rightarrow> False)"

definition has_key :: "string \<Rightarrow> pyval \<Rightarrow> bool" where
  "has_key key r = (case r of VDict d \<Rightarrow> map_of d key \<noteq> None | _ \<Rightarrow> False)"

definition methods_of :: "pyval \<Rightarrow> pyval list" where
  "methods_of r = (case r of VDict d \<Rightarrow> get_list d ''methods'' | _ \<Rightarrow> [])"

text \<open>
  What the parser guarantees of a tree for a text of \<open>k\<close> lines: every node starts
  no later than it ends, on rows of the text.
\<close>

definition spans_ok :: "nat \<Rightarrow> node \<Rightarrow> bool" where
  "spans_ok k tree =
     list_all (\<lambda>n. fst (start_point n) \<le> fst (end_point n) \<and> fst (end_point n) < k) (nodes tree)"


text \<open>
  The statement the specification calls the first statement of a function body, and
  the string literal it consists of when it is a bare string expression.
\<close>

definition first_body_statement :: "node \<Rightarrow> node option" where
  "first_body_statement n =
     (case first_child_of_type ''block'' n of
        None \<Rightarrow> None
      | Some body_node \<Rightarrow> (case children body_node of [] \<Rightarrow> None | stmt # _ \<Rightarrow> Some stmt))"

definition bare_string_literal :: "node \<Rightarrow> node option" where
  "bare_string_literal stmt =
     (if node_type stmt = ''expression_statement'' then
        (case children stmt of
           [] \<Rightarrow> None
         | e # _ \<Rightarrow> if node_type e = ''string'' then Some e else None)
      else None)"

text \<open>
  Lines joined by newline characters, and blank lines: those with nothing but
  whitespace.
\<close>

fun join_nl :: "string list \<Rightarrow> string" where
  "join_nl [] = []"
| "join_nl [l] = l"
| "join_nl (l # ls) = l @ CHR 0x0A # join_nl ls"


definition entry_language :: "(string \<times> pydict) list \<Rightarrow> string \<Rightarrow> pyval option" where
  "entry_language results p =
     (case map_of results p of None \<Rightarrow> None | Some d \<Rightarrow> map_of d ''language'')"

definition entry_errors :: "(string \<times> pydict) list \<Rightarrow> string \<Rightarrow> pyval option" where
  "entry_errors results p =
     (case map_of results p of None \<Rightarrow> None | Some d \<Rightarrow> map_of d ''errors'')"

section \<open>Example files, registries and file systems\<close>

text \<open>
  A JavaScript file, also used as a TypeScript file, and its tree:
  \<^verbatim>\<open>
  function f(a) { return a; }
  \<close>
\<close>

definition ex_js_content :: string where
  "ex_js_content = ''function f(a) { return a; }'' @ [CHR 0x0A]"

definition ex_js_program :: node where
  "ex_js_program =
     Node ''program'' (0, 0) (1, 0)
       [Node ''function_declaration'' (0, 0) (0, 27)
          [Node ''function'' (0, 0) (0, 8) [],
           Node ''identifier'' (0, 9) (0, 10) [],
           Node ''formal_parameters'' (0, 10) (0, 13)
             [Node ''('' (0, 10) (0, 11) [],
              Node ''identifier'' (0, 11) (0, 12) [],
              Node '')'' (0, 12) (0, 13) []],
           Node ''statement_block'' (0, 14) (0, 27)
             [Node ''{'' (0, 14) (0, 15) [],
              Node ''return_statement'' (0, 16) (0, 25)
                [Node ''return'' (0, 16) (0, 22) [],
                 Node ''identifier'' (0, 23) (0, 24) [],
                 Node '';'' (0, 24) (0, 25) []],
              Node ''}'' (0, 26) (0, 27) []]]]"

text \<open>A tree without children, for the languages whose walkers do not read it.\<close>

definition ex_empty_tree :: node where
  "ex_empty_tree = Node ''translation_unit'' (0, 0) (0, 0) []"

text \<open>
  A file of ten lines, three of them blank (one empty, one of spaces, one of a tab),
  with an extension the detector does not know.
\<close>

definition ex_ten_lines :: "string list" where
  "ex_ten_lines =
     [''# notes'', [], ''puts 1'', ''   '', ''puts 2'', ''puts 3'', [CHR 0x09],
      ''puts 4'', ''puts 5'', ''puts 6'']"

text \<open>
  A registry in which the Python, JavaScript, TypeScript, Java and C grammars loaded:
  each parser gives the tree above for the example text of its language and a tree
  without children for any other text. The Rust parser raises. A file system that
  never changes, and one in which the Rust file is gone after its first read.
\<close>

definition ex_parsers :: parsers where
  "ex_parsers =
     map_of
       [(''python'', \<lambda>content.
           if content = ex_content then Inr ex_module else Inr (Node ''module'' (0, 0) (0, 0) [])),
        (''javascript'', \<lambda>content.
           if content = ex_js_content then Inr ex_js_program
           else Inr (Node ''program'' (0, 0) (0, 0) [])),
        (''typescript'', \<lambda>content.
           if content = ex_js_content then Inr ex_js_program
           else Inr (Node ''program'' (0, 0) (0, 0) [])),
        (''java'', \<lambda>content. Inr ex_empty_tree),
        (''c'', \<lambda>content. Inr ex_empty_tree),
        (''rust'', \<lambda>content. Inl (ParserError ''parser crashed''))]"

definition ex_files :: "(string \<times> string) list" where
  "ex_files =
     [(''/repo/a.py'', ex_content),
      (''/repo/app.js'', ex_js_content),
      (''/repo/app.ts'', ex_js_content),
      (''/repo/Main.java'', []),
      (''/repo/main.c'', []),
      (''/repo/lib.rs'', ''fn main() {}''),
      (''/repo/notes.rb'', join_nl ex_ten_lines)]"

definition ex_fs :: filesystem where
  "ex_fs t file_path =
     (case map_of ex_files file_path of
        None \<Rightarrow> Inl (OSError ''No such file or directory'')
      | Some content \<Rightarrow> Inr content)"

definition ex_fs_deleted :: filesystem where
  "ex_fs_deleted t file_path =
     (if file_path = ''/repo/lib.rs'' \<and> 0 < t
      then Inl (OSError ''No such file or directory'')
      else ex_fs t file_path)"

definition ex_descriptor :: "string \<Rightarrow> string option \<Rightarrow> file_info" where
  "ex_descriptor name language =
     \<lparr>fi_path = name, fi_full_path = ''/repo/'' @ name, fi_language = language, fi_size = 0\<rparr>"

section \<open>Docstrings as specified\<close>

text \<open>
  The docstring the specification describes: the text of the string literal, when the
  first statement of the body is one. And the \<open>docstring\<close> entry of an extracted record.
\<close>

definition first_statement_docstring :: "node \<Rightarrow> string list \<Rightarrow> string option" where
  "first_statement_docstring n lines =
     (case first_body_statement n of
        None \<Rightarrow> None
      | Some stmt \<Rightarrow>
          (case bare_string_literal stmt of
             None \<Rightarrow> None
           | Some e \<Rightarrow> (case node_text lines e of Inl err \<Rightarrow> None | Inr s \<Rightarrow> Some s)))"

definition record_docstring :: "pydict option \<Rightarrow> pyval option" where
  "record_docstring r = (case r of None \<Rightarrow> None | Some d \<Rightarrow> map_of d ''docstring'')"

text \<open>
  A function whose second statement is a string expression:
  \<^verbatim>\<open>
  def g():
      pass
      "note"
  \<close>
\<close>

definition ex_late_lines :: "string list" where
  "ex_late_lines =
     [''def g():'', ''    pass'', ''    '' @ [CHR 0x22] @ ''note'' @ [CHR 0x22], []]"

definition ex_late_function :: node where
  "ex_late_function =
     Node ''function_definition'' (0, 0) (2, 10)
       [Node ''def'' (0, 0) (0, 3) [],
        Node ''identifier'' (0, 4) (0, 5) [],
        Node ''parameters'' (0, 5) (0, 7)
          [Node ''('' (0, 5) (0, 6) [], Node '')'' (0, 6) (0, 7) []],
        Node '':'' (0, 7) (0, 8) [],
        Node ''block'' (1, 4) (2, 10)
          [Node ''pass_statement'' (1, 4) (1, 8) [Node ''pass'' (1, 4) (1, 8) []],
           Node ''expression_statement'' (2, 4) (2, 10)
             [Node ''string'' (2, 4) (2, 10)
                [Node ''string_start'' (2, 4) (2, 5) [],
                 Node ''string_content'' (2, 5) (2, 9) [],
                 Node ''string_end'' (2, 9) (2, 10) []]]]]"

section \<open>Vocabulary of the batch and of line counts\<close>

text \<open>
  The language of a descriptor, declared first: what the descriptor declares when it
  declares a non-empty name, and what the detector finds for its full path otherwise.
\<close>

definition declared_or_detected :: "file_info \<Rightarrow> string option" where
  "declared_or_detected fi =
     (case fi_language fi of
        None \<Rightarrow> detect_language (fi_full_path fi)
      | Some l \<Rightarrow> if l = [] then detect_language (fi_full_path fi) else Some l)"

text \<open>What the rule set of one of the eight languages gives for a tree and a content.\<close>

definition walker_result :: "string \<Rightarrow> node \<Rightarrow> string \<Rightarrow> pydict" where
  "walker_result l tree content =
     (if l = ''python'' then parse_python tree content
      else if l = ''javascript'' \<or> l = ''typescript'' then parse_javascript tree content
      else if l = ''java'' then parse_java tree content
      else if l = ''cpp'' \<or> l = ''c'' then parse_cpp tree content
      else if l = ''go'' then parse_go tree content
      else parse_rust tree content)"






section \<open>Properties of the complexity calculator\<close>

lemma fold_traverse_shift:
  assumes "\<And>c k. c \<in> set cs \<Longrightarrow> traverse_for_complexity c k = k + f c"
  shows "fold traverse_for_complexity cs k = k + sum_list (map f cs)"
  using assms by (induction cs arbitrary: k) (simp_all add: add.assoc)

lemma is_branching_Node:
  "is_branching (Node ty sp ep cs) \<longleftrightarrow>
     ty \<in> set [''if_statement'', ''while_statement'', ''for_statement'', ''except_clause'']"
  by (auto simp: is_branching_def)

lemma traverse_for_complexity_count:
  "traverse_for_complexity n k =
     k + int (length (filter is_branching (n # descendants n)))"
proof (induction n arbitrary: k)
  case (Node ty sp ep cs)
  let ?f = "\<lambda>c. int (length (filter is_branching (c # descendants c)))"
  have step: "\<And>c k. c \<in> set cs \<Longrightarrow> traverse_for_complexity c k = k + ?f c"
    using Node.IH by blast
  have sum: "int (length (filter is_branching (concat (map (\<lambda>c. c # descendants c) cs))))
      = sum_list (map ?f cs)"
    by (induction cs) simp_all
  have "traverse_for_complexity (Node ty sp ep cs) k =
      (if is_branching (Node ty sp ep cs) then k + 1 else k) + sum_list (map ?f cs)"
    unfolding traverse_for_complexity.simps is_branching_Node
    by (rule fold_traverse_shift[OF step])
  also have "\<dots> = k + int (length (filter is_branching
      (Node ty sp ep cs # descendants (Node ty sp ep cs))))"
    using sum by simp
  finally show ?case .
qed



section \<open>The walkers append the records of the rules, in pre-order\<close>

lemma map_fst_list_append: "map fst (list_append key item result) = map fst result"
proof (cases "map_of result key")
  case None
  then show ?thesis by (simp add: list_append_def)
next
  case (Some v)
  then have "key \<in> fst ` set result"
    by (metis map_of_eq_None_iff option.distinct(1))
  then show ?thesis
    using Some by (cases v) (simp_all add: list_append_def update_keys)
qed

lemma map_of_list_append:
  "map_of (list_append key item result) k =
     (if k = key then
        (case map_of result key of
           Some (VList xs) \<Rightarrow> Some (VList (xs @ [VDict item]))
         | other \<Rightarrow> other)
      else map_of result k)"
  by (simp add: list_append_def update_conv' split: option.splits pyval.splits)

lemma append_if_emit:
  "append_if key info result = fold append_event (emit key info) result"
  by (cases info) (simp_all add: append_if_def emit_def append_event_def)

lemma map_fst_fold_append_event: "map fst (fold append_event evs result) = map fst result"
  by (induction evs arbitrary: result) (simp_all add: append_event_def map_fst_list_append)

lemma map_of_fold_append_event_list:
  "map_of result key = Some (VList xs) \<Longrightarrow>
     map_of (fold append_event evs result) key = Some (VList (xs @ records_for key evs))"
proof (induction evs arbitrary: result xs)
  case Nil
  then show ?case by (simp add: records_for_def)
next
  case (Cons e evs)
  show ?case
  proof (cases "fst e = key")
    case True
    then have "map_of (append_event e result) key = Some (VList (xs @ [VDict (snd e)]))"
      using Cons.prems by (simp add: append_event_def map_of_list_append)
    from Cons.IH[OF this] True show ?thesis by (simp add: records_for_def)
  next
    case False
    then have "map_of (append_event e result) key = Some (VList xs)"
      using Cons.prems by (simp add: append_event_def map_of_list_append)
    from Cons.IH[OF this] False show ?thesis by (simp add: records_for_def)
  qed
qed

lemma map_of_fold_append_event_other:
  "list_all (\<lambda>e. fst e \<noteq> key) evs \<Longrightarrow>
     map_of (fold append_event evs result) key = map_of result key"
  by (induction evs arbitrary: result) (auto simp: append_event_def map_of_list_append)

lemma fold_traverse_children:
  assumes "\<And>c r. c \<in> set cs \<Longrightarrow> trav c r = fold append_event (ev c) r"
  shows "fold trav cs r = fold append_event (concat (map ev cs)) r"
  using assms by (induction cs arbitrary: r) simp_all

lemma concat_map_nodes:
  "concat (map f (concat (map g cs))) = concat (map (\<lambda>c. concat (map f (g c))) cs)"
  by (induction cs) simp_all

lemma traverse_node_events:
  "traverse_node lines n result =
     fold append_event (concat (map (py_rule lines) (nodes n))) result"
proof (induction n arbitrary: result)
  case (Node ty sp ep cs)
  have kids: "\<And>r. fold (traverse_node lines) cs r =
      fold append_event (concat (map (\<lambda>c. concat (map (py_rule lines) (nodes c))) cs)) r"
    by (rule fold_traverse_children) (use Node.IH in blast)
  have own: "(if ty = ''function_definition'' then
          append_if ''functions'' (extract_python_function (Node ty sp ep cs) lines) result
        else if ty = ''class_definition'' then
          append_if ''classes'' (extract_python_class (Node ty sp ep cs) lines) result
        else if ty \<in> set [''import_statement'', ''import_from_statement''] then
          append_if ''imports'' (extract_python_import (Node ty sp ep cs) lines) result
        else if ty = ''assignment'' then
          append_if ''variables'' (extract_python_variable (Node ty sp ep cs) lines) result
        else result) = fold append_event (py_rule lines (Node ty sp ep cs)) result"
    unfolding py_rule_def append_if_emit by simp
  have cat: "concat (map (py_rule lines) (nodes (Node ty sp ep cs))) =
      py_rule lines (Node ty sp ep cs) @
      concat (map (\<lambda>c. concat (map (py_rule lines) (nodes c))) cs)"
    by (simp add: concat_map_nodes)
  show ?case
    unfolding traverse_node.simps own kids cat by simp
qed

lemma traverse_node_js_events:
  "traverse_node_js lines n result =
     fold append_event (concat (map (js_rule lines) (nodes n))) result"
proof (induction n arbitrary: result)
  case (Node ty sp ep cs)
  have kids: "\<And>r. fold (traverse_node_js lines) cs r =
      fold append_event (concat (map (\<lambda>c. concat (map (js_rule lines) (nodes c))) cs)) r"
    by (rule fold_traverse_children) (use Node.IH in blast)
  have own: "(if ty \<in> set [''function_declaration'', ''function_expression'', ''arrow_function''] then
          append_if ''functions'' (extract_js_function (Node ty sp ep cs) lines) result
        else if ty = ''class_declaration'' then
          append_if ''classes'' (extract_js_class (Node ty sp ep cs) lines) result
        else if ty \<in> set [''import_statement'', ''import_clause''] then
          append_if ''imports'' (extract_js_import (Node ty sp ep cs) lines) result
        else result) = fold append_event (js_rule lines (Node ty sp ep cs)) result"
    unfolding js_rule_def append_if_emit by simp
  have cat: "concat (map (js_rule lines) (nodes (Node ty sp ep cs))) =
      js_rule lines (Node ty sp ep cs) @
      concat (map (\<lambda>c. concat (map (js_rule lines) (nodes c))) cs)"
    by (simp add: concat_map_nodes)
  show ?case
    unfolding traverse_node_js.simps own kids cat by simp
qed

lemma parse_python_keys:
  "map fst (parse_python tree content) =
     [''language'', ''functions'', ''classes'', ''imports'', ''variables'', ''errors'']"
  by (simp add: parse_python_def traverse_node_events map_fst_fold_append_event)

lemma parse_javascript_keys:
  "map fst (parse_javascript tree content) =
     [''language'', ''functions'', ''classes'', ''imports'', ''exports'', ''variables'', ''errors'']"
  by (simp add: parse_javascript_def traverse_node_js_events map_fst_fold_append_event)

lemma py_rule_keys:
  "e \<in> set (py_rule lines n) \<Longrightarrow>
     fst e \<in> {''functions'', ''classes'', ''imports'', ''variables''}"
  by (auto simp: py_rule_def emit_def split: if_splits option.splits)

lemma js_rule_keys:
  "e \<in> set (js_rule lines n) \<Longrightarrow> fst e \<in> {''functions'', ''classes'', ''imports''}"
  by (auto simp: js_rule_def emit_def split: if_splits option.splits)

lemma parse_python_language: "map_of (parse_python tree content) ''language'' = Some (VStr ''python'')"
proof -
  have "list_all (\<lambda>e. fst e \<noteq> ''language'')
      (concat (map (py_rule (split_nl content)) (nodes tree)))"
    unfolding list_all_iff using py_rule_keys by fastforce
  then show ?thesis
    by (simp add: parse_python_def traverse_node_events map_of_fold_append_event_other)
qed

lemma parse_javascript_language:
  "map_of (parse_javascript tree content) ''language'' = Some (VStr ''javascript'')"
proof -
  have "list_all (\<lambda>e. fst e \<noteq> ''language'')
      (concat (map (js_rule (split_nl content)) (nodes tree)))"
    unfolding list_all_iff using js_rule_keys by fastforce
  then show ?thesis
    by (simp add: parse_javascript_def traverse_node_js_events map_of_fold_append_event_other)
qed

lemma parse_python_list:
  "key \<in> {''functions'', ''classes'', ''imports'', ''variables''} \<Longrightarrow>
     get_list (parse_python tree content) key =
       records_for key (concat (map (py_rule (split_nl content)) (nodes tree)))"
  unfolding parse_python_def traverse_node_events get_list_def
  by (subst map_of_fold_append_event_list[where xs = "[]"]) auto

lemma parse_javascript_list:
  "key \<in> {''functions'', ''classes'', ''imports''} \<Longrightarrow>
     get_list (parse_javascript tree content) key =
       records_for key (concat (map (js_rule (split_nl content)) (nodes tree)))"
  unfolding parse_javascript_def traverse_node_js_events get_list_def
  by (subst map_of_fold_append_event_list[where xs = "[]"]) auto

section \<open>Properties of \<open>parse_file\<close>\<close>

lemma fallback_parse_read:
  "fs t file_path = Inr content \<Longrightarrow>
     fallback_parse fs file_path t =
       (Inr [(''language'', VStr (or_str (detect_language file_path) ''unknown'')),
             (''functions'', VList []),
             (''classes'', VList []),
             (''imports'', VList []),
             (''lines_of_code'',
                VInt (int (length (filter (\<lambda>line. strip line \<noteq> []) (split_nl content))))),
             (''total_lines'', VInt (int (length (split_nl content)))),
             (''errors'', VList [VStr ''Fallback parsing used - limited functionality''])],
        Suc t)"
  by (simp add: fallback_parse_def open_read_def Let_def)

lemma fallback_parse_unreadable:
  "fs t file_path = Inl e \<Longrightarrow>
     fallback_parse fs file_path t =
       (Inr [(''language'', VStr ''unknown''),
             (''functions'', VList []),
             (''classes'', VList []),
             (''imports'', VList []),
             (''errors'', VList [VStr (''Parsing failed: '' @ str_of_error e)])],
        Suc t)"
  by (simp add: fallback_parse_def open_read_def Let_def)

lemma fallback_parse_returns:
  "\<exists>d. fallback_parse fs file_path t = (Inr d, Suc t) \<and>
       ''language'' \<in> set (map fst d) \<and> ''functions'' \<in> set (map fst d) \<and>
       ''errors'' \<in> set (map fst d)"
proof (cases "fs t file_path")
  case (Inl e)
  then show ?thesis by (simp add: fallback_parse_unreadable)
next
  case (Inr content)
  then show ?thesis by (simp add: fallback_parse_read)
qed

lemma parse_file_body_registered:
  assumes "resolve_language file_path language = Some l" and "l \<noteq> []"
    and "ps l = Some parser" and "fs t file_path = Inr content" and "parser content = Inr tree"
  shows "parse_file_body ps fs file_path language t =
     (if l = ''python'' then (Inr (parse_python tree content), Suc t)
      else if l \<in> set [''javascript'', ''typescript''] then
        (Inr (parse_javascript tree content), Suc t)
      else if l = ''java'' then (Inr (parse_java tree content), Suc t)
      else if l \<in> set [''cpp'', ''c''] then (Inr (parse_cpp tree content), Suc t)
      else if l = ''go'' then (Inr (parse_go tree content), Suc t)
      else if l = ''rust'' then (Inr (parse_rust tree content), Suc t)
      else fallback_parse fs file_path (Suc t))"
  unfolding parse_file_body_def open_read_def using assms by simp

lemma parse_file_body_shape:
  "(\<exists>u. parse_file_body ps fs file_path language t = fallback_parse fs file_path u) \<or>
   (\<exists>e. parse_file_body ps fs file_path language t = (Inl e, Suc t)) \<or>
   (\<exists>tree content. parse_file_body ps fs file_path language t \<in>
      {(Inr (parse_python tree content), Suc t), (Inr (parse_javascript tree content), Suc t),
       (Inr (parse_java tree content), Suc t), (Inr (parse_cpp tree content), Suc t),
       (Inr (parse_go tree content), Suc t), (Inr (parse_rust tree content), Suc t)})"
proof (cases "resolve_language file_path language")
  case None
  then show ?thesis by (simp add: parse_file_body_def) blast
next
  case (Some l)
  show ?thesis
  proof (cases "l = [] \<or> ps l = None")
    case True
    then have "parse_file_body ps fs file_path language t = fallback_parse fs file_path t"
      using Some by (auto simp: parse_file_body_def)
    then show ?thesis by blast
  next
    case False
    then obtain parser where p: "l \<noteq> []" "ps l = Some parser" by auto
    show ?thesis
    proof (cases "fs t file_path")
      case (Inl e)
      then have "parse_file_body ps fs file_path language t = (Inl e, Suc t)"
        using Some p by (simp add: parse_file_body_def open_read_def)
      then show ?thesis by blast
    next
      case (Inr content)
      show ?thesis
      proof (cases "parser content")
        case (Inl e)
        then have "parse_file_body ps fs file_path language t = (Inl e, Suc t)"
          using Some p Inr by (simp add: parse_file_body_def open_read_def)
        then show ?thesis by blast
      next
        case treeI: (Inr tree)
        have eq: "parse_file_body ps fs file_path language t =
           (if l = ''python'' then (Inr (parse_python tree content), Suc t)
            else if l \<in> set [''javascript'', ''typescript''] then
              (Inr (parse_javascript tree content), Suc t)
            else if l = ''java'' then (Inr (parse_java tree content), Suc t)
            else if l \<in> set [''cpp'', ''c''] then (Inr (parse_cpp tree content), Suc t)
            else if l = ''go'' then (Inr (parse_go tree content), Suc t)
            else if l = ''rust'' then (Inr (parse_rust tree content), Suc t)
            else fallback_parse fs file_path (Suc t))"
          using Some p Inr treeI by (rule parse_file_body_registered)
        show ?thesis
        proof (cases "l \<in> set [''python'', ''javascript'', ''typescript'', ''java'', ''cpp'',
            ''c'', ''go'', ''rust'']")
          case True
          then have "parse_file_body ps fs file_path language t \<in>
            {(Inr (parse_python tree content), Suc t), (Inr (parse_javascript tree content), Suc t),
             (Inr (parse_java tree content), Suc t), (Inr (parse_cpp tree content), Suc t),
             (Inr (parse_go tree content), Suc t), (Inr (parse_rust tree content), Suc t)}"
            unfolding eq by auto
          then show ?thesis by blast
        next
          case False
          then have "parse_file_body ps fs file_path language t =
              fallback_parse fs file_path (Suc t)"
            unfolding eq by auto
          then show ?thesis by blast
        qed
      qed
    qed
  qed
qed

lemma parse_file_body_result:
  assumes "parse_file_body ps fs file_path language t = (Inr d, t')"
  shows "''language'' \<in> set (map fst d) \<and> ''functions'' \<in> set (map fst d) \<and>
         ''errors'' \<in> set (map fst d)"
proof -
  note shape = parse_file_body_shape[of ps fs file_path language t, unfolded assms]
  then consider (fb) u where "(Inr d, t') = fallback_parse fs file_path u"
    | (err) e where "(Inr d :: py_error + pydict, t') = (Inl e, Suc t)"
    | (reg) tree content where "(Inr d :: py_error + pydict, t') \<in>
      {(Inr (parse_python tree content), Suc t), (Inr (parse_javascript tree content), Suc t),
       (Inr (parse_java tree content), Suc t), (Inr (parse_cpp tree content), Suc t),
       (Inr (parse_go tree content), Suc t), (Inr (parse_rust tree content), Suc t)}"
    by blast
  then show ?thesis
  proof cases
    case fb
    obtain d' where "fallback_parse fs file_path u = (Inr d', Suc u)"
      and "''language'' \<in> set (map fst d') \<and> ''functions'' \<in> set (map fst d') \<and>
           ''errors'' \<in> set (map fst d')"
      using fallback_parse_returns by blast
    with fb show ?thesis by simp
  next
    case err
    then show ?thesis by simp
  next
    case reg
    then have "d = parse_python tree content \<or> d = parse_javascript tree content \<or>
        d = parse_java tree content \<or> d = parse_cpp tree content \<or>
        d = parse_go tree content \<or> d = parse_rust tree content"
      by simp blast
    then show ?thesis
      by (elim disjE)
        (simp_all add: parse_python_keys parse_javascript_keys parse_java_def parse_cpp_def
          parse_go_def parse_rust_def)
  qed
qed

lemma parse_file_registered:
  assumes "resolve_language file_path language = Some l" and "l \<noteq> []"
    and "ps l = Some parser" and "fs t file_path = Inr content" and "parser content = Inr tree"
  shows "parse_file ps fs file_path language t =
     (if l = ''python'' then (Inr (parse_python tree content), Suc t)
      else if l \<in> set [''javascript'', ''typescript''] then
        (Inr (parse_javascript tree content), Suc t)
      else if l = ''java'' then (Inr (parse_java tree content), Suc t)
      else if l \<in> set [''cpp'', ''c''] then (Inr (parse_cpp tree content), Suc t)
      else if l = ''go'' then (Inr (parse_go tree content), Suc t)
      else if l = ''rust'' then (Inr (parse_rust tree content), Suc t)
      else fallback_parse fs file_path (Suc t))"
proof -
  obtain d where "fallback_parse fs file_path (Suc t) = (Inr d, Suc (Suc t))"
    using fallback_parse_returns by blast
  moreover note parse_file_body_registered[of file_path language l ps parser fs t content tree]
  ultimately show ?thesis
    using assms by (simp add: parse_file_def)
qed

lemma parse_file_unregistered:
  assumes "resolve_language file_path language = None \<or>
           resolve_language file_path language = Some [] \<or>
           (\<exists>l. resolve_language file_path language = Some l \<and> ps l = None)"
  shows "parse_file ps fs file_path language t = fallback_parse fs file_path t"
proof -
  obtain d where "fallback_parse fs file_path t = (Inr d, Suc t)"
    using fallback_parse_returns by blast
  then show ?thesis
    using assms by (auto simp: parse_file_def parse_file_body_def)
qed

text \<open>
  C1. Whatever the file, the language argument, the registered parsers and the state
  of the file system, and whether reading or parsing raises, \<open>parse_file\<close> does not
  raise: it returns a dictionary, which has at least the keys \<open>language\<close>, \<open>functions\<close>
  and \<open>errors\<close>.
\<close>

theorem parse_file_never_raises:
  "returns (parse_file ps fs file_path language t) \<and>
   ''language'' \<in> set (result_keys (fst (parse_file ps fs file_path language t))) \<and>
   ''functions'' \<in> set (result_keys (fst (parse_file ps fs file_path language t))) \<and>
   ''errors'' \<in> set (result_keys (fst (parse_file ps fs file_path language t)))"
proof (cases "parse_file_body ps fs file_path language t")
  case (Pair r t')
  show ?thesis
  proof (cases r)
    case (Inl e)
    obtain d where "fallback_parse fs file_path t' = (Inr d, Suc t')"
      and "''language'' \<in> set (map fst d) \<and> ''functions'' \<in> set (map fst d) \<and>
           ''errors'' \<in> set (map fst d)"
      using fallback_parse_returns by blast
    then show ?thesis
      using Pair Inl by (simp add: parse_file_def returns_def result_keys_def)
  next
    case (Inr d)
    then show ?thesis
      using Pair parse_file_body_result[of ps fs file_path language t d t']
      by (simp add: parse_file_def returns_def result_keys_def)
  qed
qed

theorem parse_file_never_raises_witness:
  "returns (parse_file ex_parsers ex_fs_deleted ''/repo/lib.rs'' None 0) \<and>
   ''errors'' \<in> set (result_keys (fst (parse_file ex_parsers ex_fs_deleted ''/repo/lib.rs'' None 0))) \<and>
   fst (parse_file ex_parsers ex_fs_deleted ''/repo/lib.rs'' None 0) =
     Inr [(''language'', VStr ''unknown''), (''functions'', VList []), (''classes'', VList []),
          (''imports'', VList []),
          (''errors'', VList [VStr ''Parsing failed: No such file or directory''])] \<and>
   returns (parse_file ex_parsers ex_fs ''/repo/Main.java'' None 0) \<and>
   returns (parse_file ex_parsers ex_fs ''/repo/missing.bin'' (Some ''cobol'') 0)"
proof -
  have "fst (parse_file ex_parsers ex_fs_deleted ''/repo/lib.rs'' None 0) =
     Inr [(''language'', VStr ''unknown''), (''functions'', VList []), (''classes'', VList []),
          (''imports'', VList []),
          (''errors'', VList [VStr ''Parsing failed: No such file or directory''])]"
    by code_simp
  then show ?thesis
    using parse_file_never_raises[of ex_parsers ex_fs_deleted "''/repo/lib.rs''" None 0]
      parse_file_never_raises[of ex_parsers ex_fs "''/repo/Main.java''" None 0]
      parse_file_never_raises[of ex_parsers ex_fs "''/repo/missing.bin''" "Some ''cobol''" 0]
    by blast
qed

text \<open>
  C3. The result of a TypeScript file names the language \<open>javascript\<close> and the result
  of a C file names \<open>cpp\<close>, whether the language was detected from the extension or
  declared by the caller: \<open>_parse_javascript\<close> and \<open>_parse_cpp\<close> each serve two languages
  and write one fixed name.
\<close>

theorem typescript_and_c_results_name_the_sibling_language:
  "detect_language ''/repo/app.ts'' = Some ''typescript'' \<and>
   result_language (fst (parse_file ex_parsers ex_fs ''/repo/app.ts'' None 0)) =
     Some (VStr ''javascript'') \<and>
   result_language (fst (parse_file ex_parsers ex_fs ''/repo/app.ts'' (Some ''typescript'') 0)) =
     Some (VStr ''javascript'') \<and>
   detect_language ''/repo/main.c'' = Some ''c'' \<and>
   result_language (fst (parse_file ex_parsers ex_fs ''/repo/main.c'' None 0)) =
     Some (VStr ''cpp'') \<and>
   result_language (fst (parse_file ex_parsers ex_fs ''/repo/main.c'' (Some ''c'') 0)) =
     Some (VStr ''cpp'')"
  by code_simp

text \<open>
  C9, as the claim states it, fails: the result for a Java file has no \<open>variables\<close>
  entry, and the result for a C file has neither \<open>imports\<close> nor \<open>variables\<close>.
\<close>

theorem java_and_c_results_lack_components:
  "result_keys (fst (parse_file ex_parsers ex_fs ''/repo/Main.java'' None 0)) =
     [''language'', ''functions'', ''classes'', ''imports'', ''errors''] \<and>
   ''variables'' \<notin> set (result_keys (fst (parse_file ex_parsers ex_fs ''/repo/Main.java'' None 0))) \<and>
   result_keys (fst (parse_file ex_parsers ex_fs ''/repo/main.c'' None 0)) =
     [''language'', ''functions'', ''classes'', ''includes'', ''errors''] \<and>
   ''imports'' \<notin> set (result_keys (fst (parse_file ex_parsers ex_fs ''/repo/main.c'' None 0)))"
  by code_simp

text \<open>
  C9, amended. When the file is read and parsed by the registered parser of one of the
  eight languages, the keys of the result are fixed by the language: every result has
  \<open>language\<close>, \<open>functions\<close> and \<open>errors\<close>; the Python and the JavaScript/TypeScript results
  have all of \<open>functions\<close>, \<open>classes\<close>, \<open>imports\<close>, \<open>variables\<close> and \<open>errors\<close> (the latter
  also \<open>exports\<close>); the Java result has no \<open>variables\<close>; the C/C++ result has \<open>includes\<close>
  in place of \<open>imports\<close> and no \<open>variables\<close>; the Go and Rust results have \<open>structs\<close> in
  place of \<open>classes\<close> and no \<open>variables\<close>.
\<close>

theorem parse_file_result_keys:
  assumes "resolve_language file_path language = Some l"
    and "l \<in> set [''python'', ''javascript'', ''typescript'', ''java'', ''cpp'', ''c'', ''go'', ''rust'']"
    and "ps l = Some parser" and "fs t file_path = Inr content" and "parser content = Inr tree"
  shows "result_keys (fst (parse_file ps fs file_path language t)) =
     (if l = ''python'' then
        [''language'', ''functions'', ''classes'', ''imports'', ''variables'', ''errors'']
      else if l = ''javascript'' \<or> l = ''typescript'' then
        [''language'', ''functions'', ''classes'', ''imports'', ''exports'', ''variables'', ''errors'']
      else if l = ''java'' then
        [''language'', ''functions'', ''classes'', ''imports'', ''errors'']
      else if l = ''cpp'' \<or> l = ''c'' then
        [''language'', ''functions'', ''classes'', ''includes'', ''errors'']
      else
        [''language'', ''functions'', ''structs'', ''imports'', ''errors''])"
proof -
  have "l \<noteq> []" using assms(2) by auto
  note eq = parse_file_registered[of file_path language l ps parser fs t content tree,
      OF assms(1) this assms(3,4,5)]
  have "l = ''python'' \<or> l = ''javascript'' \<or> l = ''typescript'' \<or> l = ''java'' \<or>
      l = ''cpp'' \<or> l = ''c'' \<or> l = ''go'' \<or> l = ''rust''"
    using assms(2) by simp
  then show ?thesis
    unfolding eq
    by (elim disjE)
      (simp_all add: result_keys_def parse_python_keys parse_javascript_keys parse_java_def
        parse_cpp_def parse_go_def parse_rust_def)
qed

theorem parse_file_result_keys_witness:
  "resolve_language ''/repo/a.py'' None = Some ''python'' \<and>
   ex_parsers ''python'' = Some (\<lambda>content.
     if content = ex_content then Inr ex_module else Inr (Node ''module'' (0, 0) (0, 0) [])) \<and>
   ex_fs 0 ''/repo/a.py'' = Inr ex_content \<and>
   result_keys (fst (parse_file ex_parsers ex_fs ''/repo/a.py'' None 0)) =
     [''language'', ''functions'', ''classes'', ''imports'', ''variables'', ''errors'']"
proof -
  have r: "resolve_language ''/repo/a.py'' None = Some ''python''"
    by code_simp
  have p: "ex_parsers ''python'' = Some (\<lambda>content.
     if content = ex_content then Inr ex_module else Inr (Node ''module'' (0, 0) (0, 0) []))"
    by (simp add: ex_parsers_def)
  have f: "ex_fs 0 ''/repo/a.py'' = Inr ex_content"
    by (simp add: ex_fs_def ex_files_def)
  have m: "''python'' \<in> set [''python'', ''javascript'', ''typescript'', ''java'', ''cpp'',
      ''c'', ''go'', ''rust'']"
    by simp
  have "result_keys (fst (parse_file ex_parsers ex_fs ''/repo/a.py'' None 0)) =
     [''language'', ''functions'', ''classes'', ''imports'', ''variables'', ''errors'']"
    using parse_file_result_keys[of "''/repo/a.py''" None "''python''" ex_parsers _ ex_fs 0
        ex_content ex_module, OF r m p f]
    by simp
  with r p f show ?thesis by simp
qed

section \<open>The fallback counts lines\<close>

lemma split_nl_nonempty: "split_nl s \<noteq> []"
  by (induction s) (auto split: list.splits)











section \<open>Properties of the batch\<close>

text \<open>
  C4, as the claim states it, fails. For a descriptor of \<open>app.js\<close> that declares the
  language \<open>python\<close> the detector says \<open>javascript\<close>, and the file is parsed as Python.
  For a descriptor that declares \<open>JavaScript\<close>, the name \<open>get_file_list\<close> gives, the
  detector says \<open>javascript\<close> and a JavaScript parser is registered, yet the declared
  name is looked up, no parser is found, and the fallback is used.
\<close>

theorem declared_language_overrides_detector:
  "detect_language ''/repo/app.js'' = Some ''javascript'' \<and>
   resolve_language ''/repo/app.js'' (Some ''python'') = Some ''python'' \<and>
   entry_language
     (fst (batch_parse_files ex_parsers ex_fs [ex_descriptor ''app.js'' (Some ''python'')] 0))
     ''app.js'' = Some (VStr ''python'') \<and>
   resolve_language ''/repo/app.js'' (Some ''JavaScript'') = Some ''JavaScript'' \<and>
   entry_errors
     (fst (batch_parse_files ex_parsers ex_fs [ex_descriptor ''app.js'' (Some ''JavaScript'')] 0))
     ''app.js'' = Some (VList [VStr ''Fallback parsing used - limited functionality''])"
  by code_simp

lemma batch_loop_append:
  "batch_loop ps fs (xs @ ys) results t =
     (case batch_loop ps fs xs results t of (results', t') \<Rightarrow> batch_loop ps fs ys results' t')"
  by (induction xs arbitrary: results t) (simp_all split: prod.splits)

lemma batch_loop_key_set:
  "set (map fst (fst (batch_loop ps fs file_list results t))) =
     set (map fst results) \<union> set (map fi_path file_list)"
proof (induction file_list arbitrary: results t)
  case Nil
  then show ?case by simp
next
  case (Cons fi rest)
  obtain entry t' where e: "batch_entry ps fs fi t = (entry, t')"
    by (cases "batch_entry ps fs fi t")
  have "set (map fst (AList.update (fi_path fi) entry results)) =
      insert (fi_path fi) (set (map fst results))"
    by (auto simp: update_keys)
  then show ?case
    using Cons.IH[of "AList.update (fi_path fi) entry results" t'] e by simp
qed

lemma batch_loop_distinct:
  "distinct (map fst results) \<Longrightarrow>
     distinct (map fst (fst (batch_loop ps fs file_list results t)))"
proof (induction file_list arbitrary: results t)
  case Nil
  then show ?case by simp
next
  case (Cons fi rest)
  obtain entry t' where e: "batch_entry ps fs fi t = (entry, t')"
    by (cases "batch_entry ps fs fi t")
  have "distinct (map fst (AList.update (fi_path fi) entry results))"
    using Cons.prems by (rule distinct_update)
  from Cons.IH[OF this] e show ?case by simp
qed

lemma batch_loop_keys_in_order:
  "distinct (map fi_path file_list) \<Longrightarrow>
   set (map fi_path file_list) \<inter> set (map fst results) = {} \<Longrightarrow>
     map fst (fst (batch_loop ps fs file_list results t)) =
       map fst results @ map fi_path file_list"
proof (induction file_list arbitrary: results t)
  case Nil
  then show ?case by simp
next
  case (Cons fi rest)
  obtain entry t' where e: "batch_entry ps fs fi t = (entry, t')"
    by (cases "batch_entry ps fs fi t")
  have new: "fi_path fi \<notin> set (map fst results)"
    using Cons.prems(2) by auto
  then have keys: "map fst (AList.update (fi_path fi) entry results) =
      map fst results @ [fi_path fi]"
    by (simp add: update_keys)
  have "distinct (map fi_path rest)"
    using Cons.prems(1) by simp
  moreover have "set (map fi_path rest) \<inter>
      set (map fst (AList.update (fi_path fi) entry results)) = {}"
    using Cons.prems unfolding keys by auto
  ultimately have "map fst (fst (batch_loop ps fs rest
      (AList.update (fi_path fi) entry results) t')) =
      map fst (AList.update (fi_path fi) entry results) @ map fi_path rest"
    by (rule Cons.IH)
  then show ?case
    using e keys by simp
qed

lemma batch_parse_files_snoc:
  "map_of (fst (batch_parse_files ps fs (file_list @ [fi]) t)) p =
     (if p = fi_path fi
      then Some (fst (batch_entry ps fs fi (snd (batch_parse_files ps fs file_list t))))
      else map_of (fst (batch_parse_files ps fs file_list t)) p)"
  by (simp add: batch_parse_files_def batch_loop_append update_conv' split: prod.splits)

lemma declared_or_detected_resolve:
  "resolve_language (fi_full_path fi) (fi_language fi) = declared_or_detected fi"
  by (simp add: resolve_language_def declared_or_detected_def truthy_def split: option.splits)

lemma batch_entry_parsed:
  "parse_file ps fs (fi_full_path fi) (fi_language fi) t = (Inr d, t') \<Longrightarrow>
     fst (batch_entry ps fs fi t) = AList.update ''file_info'' (file_info_val fi) d"
  by (simp add: batch_entry_def)

text \<open>
  C4, amended. For every descriptor of a batch, the entry stored under its path is
  extracted under the language the descriptor declares whenever it declares one (a
  non-empty name), and under the detector's output only when it declares none. When
  that language is one of the eight and has a registered parser, and the file is read
  and parsed, the entry is the result of that language's rule set on the tree of that
  language's parser, with the descriptor added; when there is no such language or no
  parser registered under it, the entry is the fallback result, with the descriptor
  added, whatever the detector says of the file.
\<close>

theorem descriptor_language_takes_precedence:
  "(declared_or_detected fi = Some l \<and>
    l \<in> set [''python'', ''javascript'', ''typescript'', ''java'', ''cpp'', ''c'', ''go'', ''rust''] \<and>
    ps l = Some parser \<and>
    fs (snd (batch_parse_files ps fs file_list t)) (fi_full_path fi) = Inr content \<and>
    parser content = Inr tree \<longrightarrow>
      map_of (fst (batch_parse_files ps fs (file_list @ [fi]) t)) (fi_path fi) =
        Some (AList.update ''file_info'' (file_info_val fi) (walker_result l tree content))) \<and>
   (declared_or_detected fi = None \<or> declared_or_detected fi = Some [] \<or>
    (declared_or_detected fi = Some l \<and> ps l = None) \<longrightarrow>
      (\<exists>d. fallback_parse fs (fi_full_path fi) (snd (batch_parse_files ps fs file_list t)) =
             (Inr d, Suc (snd (batch_parse_files ps fs file_list t))) \<and>
           map_of (fst (batch_parse_files ps fs (file_list @ [fi]) t)) (fi_path fi) =
             Some (AList.update ''file_info'' (file_info_val fi) d)))"
proof -
  let ?t0 = "snd (batch_parse_files ps fs file_list t)"
  let ?entry = "map_of (fst (batch_parse_files ps fs (file_list @ [fi]) t)) (fi_path fi)"
  have entry: "?entry = Some (fst (batch_entry ps fs fi ?t0))"
    by (simp add: batch_parse_files_snoc)
  have registered: "?entry =
      Some (AList.update ''file_info'' (file_info_val fi) (walker_result l tree content))"
    if h: "declared_or_detected fi = Some l \<and>
      l \<in> set [''python'', ''javascript'', ''typescript'', ''java'', ''cpp'', ''c'', ''go'', ''rust''] \<and>
      ps l = Some parser \<and> fs ?t0 (fi_full_path fi) = Inr content \<and> parser content = Inr tree"
  proof -
    have r: "resolve_language (fi_full_path fi) (fi_language fi) = Some l"
      using h by (simp add: declared_or_detected_resolve)
    have ne: "l \<noteq> []" using h by auto
    have p: "ps l = Some parser" and f: "fs ?t0 (fi_full_path fi) = Inr content"
      and q: "parser content = Inr tree"
      using h by simp_all
    have eq: "parse_file ps fs (fi_full_path fi) (fi_language fi) ?t0 =
       (if l = ''python'' then (Inr (parse_python tree content), Suc ?t0)
        else if l \<in> set [''javascript'', ''typescript''] then
          (Inr (parse_javascript tree content), Suc ?t0)
        else if l = ''java'' then (Inr (parse_java tree content), Suc ?t0)
        else if l \<in> set [''cpp'', ''c''] then (Inr (parse_cpp tree content), Suc ?t0)
        else if l = ''go'' then (Inr (parse_go tree content), Suc ?t0)
        else if l = ''rust'' then (Inr (parse_rust tree content), Suc ?t0)
        else fallback_parse fs (fi_full_path fi) (Suc ?t0))"
      using r ne p f q by (rule parse_file_registered)
    have "l = ''python'' \<or> l = ''javascript'' \<or> l = ''typescript'' \<or> l = ''java'' \<or>
        l = ''cpp'' \<or> l = ''c'' \<or> l = ''go'' \<or> l = ''rust''"
      using h by simp
    then have "parse_file ps fs (fi_full_path fi) (fi_language fi) ?t0 =
        (Inr (walker_result l tree content), Suc ?t0)"
      unfolding eq by (elim disjE) (simp_all add: walker_result_def)
    then show ?thesis
      unfolding entry by (simp add: batch_entry_parsed)
  qed
  have unregistered: "\<exists>d. fallback_parse fs (fi_full_path fi) ?t0 = (Inr d, Suc ?t0) \<and>
      ?entry = Some (AList.update ''file_info'' (file_info_val fi) d)"
    if h: "declared_or_detected fi = None \<or> declared_or_detected fi = Some [] \<or>
      (declared_or_detected fi = Some l \<and> ps l = None)"
  proof -
    have "resolve_language (fi_full_path fi) (fi_language fi) = None \<or>
        resolve_language (fi_full_path fi) (fi_language fi) = Some [] \<or>
        (\<exists>l. resolve_language (fi_full_path fi) (fi_language fi) = Some l \<and> ps l = None)"
      using h unfolding declared_or_detected_resolve by blast
    then have pf: "parse_file ps fs (fi_full_path fi) (fi_language fi) ?t0 =
        fallback_parse fs (fi_full_path fi) ?t0"
      by (rule parse_file_unregistered)
    obtain d where d: "fallback_parse fs (fi_full_path fi) ?t0 = (Inr d, Suc ?t0)"
      using fallback_parse_returns by blast
    then have "?entry = Some (AList.update ''file_info'' (file_info_val fi) d)"
      unfolding entry using pf by (simp add: batch_entry_parsed)
    with d show ?thesis by blast
  qed
  from registered unregistered show ?thesis by blast
qed

theorem descriptor_language_takes_precedence_witness:
  "detect_language (fi_full_path (ex_descriptor ''app.js'' (Some ''python''))) =
     Some ''javascript'' \<and>
   declared_or_detected (ex_descriptor ''app.js'' (Some ''python'')) = Some ''python'' \<and>
   ex_fs (snd (batch_parse_files ex_parsers ex_fs [] 0))
     (fi_full_path (ex_descriptor ''app.js'' (Some ''python''))) = Inr ex_js_content \<and>
   map_of (fst (batch_parse_files ex_parsers ex_fs
       ([] @ [ex_descriptor ''app.js'' (Some ''python'')]) 0))
     (fi_path (ex_descriptor ''app.js'' (Some ''python''))) =
     Some (AList.update ''file_info'' (file_info_val (ex_descriptor ''app.js'' (Some ''python'')))
       (walker_result ''python'' (Node ''module'' (0, 0) (0, 0) []) ex_js_content)) \<and>
   declared_or_detected (ex_descriptor ''app.js'' (Some ''JavaScript'')) = Some ''JavaScript'' \<and>
   ex_parsers ''JavaScript'' = None \<and>
   entry_errors
     (fst (batch_parse_files ex_parsers ex_fs
        ([] @ [ex_descriptor ''app.js'' (Some ''JavaScript'')]) 0))
     ''app.js'' = Some (VList [VStr ''Fallback parsing used - limited functionality''])"
proof -
  let ?py = "\<lambda>content. if content = ex_content then Inr ex_module
     else (Inr (Node ''module'' (0, 0) (0, 0) []) :: py_error + node)"
  have det: "detect_language (fi_full_path (ex_descriptor ''app.js'' (Some ''python''))) =
      Some ''javascript''"
    by code_simp
  have a: "declared_or_detected (ex_descriptor ''app.js'' (Some ''python'')) = Some ''python''"
    by (simp add: declared_or_detected_def ex_descriptor_def)
  have m: "''python'' \<in> set [''python'', ''javascript'', ''typescript'', ''java'', ''cpp'',
      ''c'', ''go'', ''rust'']"
    by simp
  have p: "ex_parsers ''python'' = Some ?py"
    by (simp add: ex_parsers_def)
  have f: "ex_fs (snd (batch_parse_files ex_parsers ex_fs [] 0))
      (fi_full_path (ex_descriptor ''app.js'' (Some ''python''))) = Inr ex_js_content"
    by (simp add: ex_fs_def ex_files_def ex_descriptor_def)
  have q: "?py ex_js_content = Inr (Node ''module'' (0, 0) (0, 0) [])"
    by (simp add: ex_js_content_def ex_content_def)
  have one: "map_of (fst (batch_parse_files ex_parsers ex_fs
       ([] @ [ex_descriptor ''app.js'' (Some ''python'')]) 0))
     (fi_path (ex_descriptor ''app.js'' (Some ''python''))) =
     Some (AList.update ''file_info'' (file_info_val (ex_descriptor ''app.js'' (Some ''python'')))
       (walker_result ''python'' (Node ''module'' (0, 0) (0, 0) []) ex_js_content))"
    using descriptor_language_takes_precedence[where
        fi = "ex_descriptor ''app.js'' (Some ''python'')" and l = "''python''"
        and ps = ex_parsers and parser = ?py and fs = ex_fs and file_list = "[]" and t = 0
        and content = ex_js_content and tree = "Node ''module'' (0, 0) (0, 0) []"]
      a m p f q
    by blast
  have b: "declared_or_detected (ex_descriptor ''app.js'' (Some ''JavaScript'')) =
      Some ''JavaScript''"
    by (simp add: declared_or_detected_def ex_descriptor_def)
  have n: "ex_parsers ''JavaScript'' = None"
    by (simp add: ex_parsers_def)
  obtain d where d: "fallback_parse ex_fs
        (fi_full_path (ex_descriptor ''app.js'' (Some ''JavaScript'')))
        (snd (batch_parse_files ex_parsers ex_fs [] 0)) =
        (Inr d, Suc (snd (batch_parse_files ex_parsers ex_fs [] 0)))"
    and e: "map_of (fst (batch_parse_files ex_parsers ex_fs
        ([] @ [ex_descriptor ''app.js'' (Some ''JavaScript'')]) 0))
        (fi_path (ex_descriptor ''app.js'' (Some ''JavaScript''))) =
        Some (AList.update ''file_info''
          (file_info_val (ex_descriptor ''app.js'' (Some ''JavaScript''))) d)"
    using descriptor_language_takes_precedence[where
        fi = "ex_descriptor ''app.js'' (Some ''JavaScript'')" and l = "''JavaScript''"
        and ps = ex_parsers and fs = ex_fs and file_list = "[]" and t = 0]
      b n
    by blast
  have "fallback_parse ex_fs (fi_full_path (ex_descriptor ''app.js'' (Some ''JavaScript'')))
      (snd (batch_parse_files ex_parsers ex_fs [] 0)) =
      (Inr [(''language'', VStr ''javascript''),
            (''functions'', VList []),
            (''classes'', VList []),
            (''imports'', VList []),
            (''lines_of_code'', VInt 1),
            (''total_lines'', VInt 2),
            (''errors'', VList [VStr ''Fallback parsing used - limited functionality''])],
       Suc (snd (batch_parse_files ex_parsers ex_fs [] 0)))"
    by code_simp
  with d have "d = [(''language'', VStr ''javascript''),
            (''functions'', VList []),
            (''classes'', VList []),
            (''imports'', VList []),
            (''lines_of_code'', VInt 1),
            (''total_lines'', VInt 2),
            (''errors'', VList [VStr ''Fallback parsing used - limited functionality''])]"
    by simp
  with e have two: "entry_errors
     (fst (batch_parse_files ex_parsers ex_fs
        ([] @ [ex_descriptor ''app.js'' (Some ''JavaScript'')]) 0))
     ''app.js'' = Some (VList [VStr ''Fallback parsing used - limited functionality''])"
    by (simp add: entry_errors_def ex_descriptor_def)
  from det a f one b n two show ?thesis by blast
qed

text \<open>
  C2, as the claim states it, fails: two descriptors with the same relative path leave
  one entry, not two.
\<close>

theorem batch_merges_equal_paths:
  "length [ex_descriptor ''app.js'' None, ex_descriptor ''app.js'' (Some ''python'')] = 2 \<and>
   map fst (fst (batch_parse_files ex_parsers ex_fs
     [ex_descriptor ''app.js'' None, ex_descriptor ''app.js'' (Some ''python'')] 0)) = [''app.js''] \<and>
   length (fst (batch_parse_files ex_parsers ex_fs
     [ex_descriptor ''app.js'' None, ex_descriptor ''app.js'' (Some ''python'')] 0)) = 1"
  by code_simp

text \<open>
  C2, amended. For every list of descriptors, every registry and every behaviour of
  the file system (reads and parsers may raise at any time), \<open>batch_parse_files\<close>
  returns a mapping whose keys are exactly the relative paths of the descriptors, each
  once; when the N relative paths are pairwise distinct the mapping has exactly N
  entries, in the order of the list. Processing one more descriptor, whether it fails
  or not, stores that descriptor's own entry under its path and leaves the entry of
  every other path as it was.
\<close>

theorem batch_has_one_entry_per_path:
  "set (map fst (fst (batch_parse_files ps fs file_list t))) = set (map fi_path file_list) \<and>
   distinct (map fst (fst (batch_parse_files ps fs file_list t))) \<and>
   (distinct (map fi_path file_list) \<longrightarrow>
      map fst (fst (batch_parse_files ps fs file_list t)) = map fi_path file_list \<and>
      length (fst (batch_parse_files ps fs file_list t)) = length file_list) \<and>
   map_of (fst (batch_parse_files ps fs (file_list @ [fi]) t)) (fi_path fi) =
     Some (fst (batch_entry ps fs fi (snd (batch_parse_files ps fs file_list t)))) \<and>
   (p \<noteq> fi_path fi \<longrightarrow>
      map_of (fst (batch_parse_files ps fs (file_list @ [fi]) t)) p =
      map_of (fst (batch_parse_files ps fs file_list t)) p)"
proof -
  have keys: "set (map fst (fst (batch_parse_files ps fs file_list t))) =
      set (map fi_path file_list)"
    unfolding batch_parse_files_def batch_loop_key_set by simp
  have dist: "distinct (map fst (fst (batch_parse_files ps fs file_list t)))"
    by (simp add: batch_parse_files_def batch_loop_distinct)
  have order: "map fst (fst (batch_parse_files ps fs file_list t)) = map fi_path file_list"
    if "distinct (map fi_path file_list)"
    using batch_loop_keys_in_order[OF that, of "[]" ps fs t]
    by (simp add: batch_parse_files_def)
  have len: "length (fst (batch_parse_files ps fs file_list t)) = length file_list"
    if "distinct (map fi_path file_list)"
    using order[OF that] by (metis length_map)
  show ?thesis
    using keys dist order len by (simp add: batch_parse_files_snoc)
qed

theorem batch_has_one_entry_per_path_witness:
  "distinct (map fi_path
     [ex_descriptor ''a.py'' None, ex_descriptor ''lib.rs'' None, ex_descriptor ''app.ts'' None]) \<and>
   length (fst (batch_parse_files ex_parsers ex_fs_deleted
     [ex_descriptor ''a.py'' None, ex_descriptor ''lib.rs'' None, ex_descriptor ''app.ts'' None] 0))
     = 3 \<and>
   map fst (fst (batch_parse_files ex_parsers ex_fs_deleted
     [ex_descriptor ''a.py'' None, ex_descriptor ''lib.rs'' None, ex_descriptor ''app.ts'' None] 0))
     = [''a.py'', ''lib.rs'', ''app.ts''] \<and>
   entry_errors (fst (batch_parse_files ex_parsers ex_fs_deleted
     [ex_descriptor ''a.py'' None, ex_descriptor ''lib.rs'' None, ex_descriptor ''app.ts'' None] 0))
     ''lib.rs'' = Some (VList [VStr ''Parsing failed: No such file or directory''])"
proof -
  have d: "distinct (map fi_path
     [ex_descriptor ''a.py'' None, ex_descriptor ''lib.rs'' None, ex_descriptor ''app.ts'' None])"
    by (simp add: ex_descriptor_def)
  have e: "entry_errors (fst (batch_parse_files ex_parsers ex_fs_deleted
     [ex_descriptor ''a.py'' None, ex_descriptor ''lib.rs'' None, ex_descriptor ''app.ts'' None] 0))
     ''lib.rs'' = Some (VList [VStr ''Parsing failed: No such file or directory''])"
    by code_simp
  have p: "map fi_path
     [ex_descriptor ''a.py'' None, ex_descriptor ''lib.rs'' None, ex_descriptor ''app.ts'' None] =
     [''a.py'', ''lib.rs'', ''app.ts'']"
    by (simp add: ex_descriptor_def)
  show ?thesis
    using batch_has_one_entry_per_path[of ex_parsers ex_fs_deleted
        "[ex_descriptor ''a.py'' None, ex_descriptor ''lib.rs'' None, ex_descriptor ''app.ts'' None]"
        0] d e p
    by simp
qed

section \<open>Properties of the extracted records\<close>

lemma calculate_complexity_ge_1: "1 \<le> calculate_complexity n"
  by (simp add: calculate_complexity_def traverse_for_complexity_count)

lemma extract_python_function_shape:
  assumes "extract_python_function n lines = Some fd"
  shows "\<exists>name params doc.
     fd = [(''name'', VStr name),
           (''start_line'', VInt (int (fst (start_point n)) + 1)),
           (''end_line'', VInt (int (fst (end_point n)) + 1)),
           (''parameters'', VList (map VStr params)),
           (''docstring'', opt_str doc),
           (''complexity'', VInt (calculate_complexity n))]"
  using assms
  unfolding extract_python_function_def extract_python_function_body_def Let_def
  by (auto split: option.splits sum.splits)

lemma class_methods_iff:
  "r \<in> set (class_methods lines cs) \<longleftrightarrow>
     (\<exists>c \<in> set cs. node_type c = ''function_definition'' \<and>
        (\<exists>fd. extract_python_function c lines = Some fd \<and> r = VDict fd))"
  by (induction cs) (auto split: option.splits)

lemma extract_python_class_shape:
  assumes "extract_python_class n lines = Some cd"
  shows "\<exists>name.
     cd = [(''name'', VStr name),
           (''start_line'', VInt (int (fst (start_point n)) + 1)),
           (''end_line'', VInt (int (fst (end_point n)) + 1)),
           (''methods'', VList
              (case first_child_of_type ''block'' n of
                 None \<Rightarrow> []
               | Some body_node \<Rightarrow> class_methods lines (children body_node))),
           (''attributes'', VList [])]"
  using assms
  unfolding extract_python_class_def extract_python_class_body_def Let_def
  by (auto split: option.splits sum.splits)

lemma extract_js_function_shape:
  assumes "extract_js_function n lines = Some fd"
  shows "\<exists>name.
     fd = [(''name'', VStr name),
           (''start_line'', VInt (int (fst (start_point n)) + 1)),
           (''end_line'', VInt (int (fst (end_point n)) + 1)),
           (''parameters'', VList []),
           (''type'', VStr (node_type n))]"
  using assms unfolding extract_js_function_def Let_def
  by (auto split: sum.splits)

lemma extract_js_class_shape:
  assumes "extract_js_class n lines = Some cd"
  shows "\<exists>name.
     cd = [(''name'', VStr name),
           (''start_line'', VInt (int (fst (start_point n)) + 1)),
           (''end_line'', VInt (int (fst (end_point n)) + 1)),
           (''methods'', VList [])]"
  using assms unfolding extract_js_class_def Let_def
  by (auto split: sum.splits)

subsection \<open>Nodes of a tree\<close>

lemma self_in_nodes: "n \<in> set (nodes n)"
  by (cases n) simp

lemma nodes_of_child: "c \<in> set (children n) \<Longrightarrow> set (nodes c) \<subseteq> set (nodes n)"
  by (cases n) auto

lemma nodes_trans: "m \<in> set (nodes n) \<Longrightarrow> set (nodes m) \<subseteq> set (nodes n)"
proof (induction n)
  case (Node ty sp ep cs)
  show ?case
  proof (cases "m = Node ty sp ep cs")
    case True
    then show ?thesis by simp
  next
    case False
    then obtain c where c: "c \<in> set cs" "m \<in> set (nodes c)"
      using Node.prems by auto
    then have "set (nodes m) \<subseteq> set (nodes c)"
      using Node.IH by blast
    then show ?thesis using c(1) by auto
  qed
qed

lemma child_in_nodes: "m \<in> set (nodes n) \<Longrightarrow> c \<in> set (children m) \<Longrightarrow> c \<in> set (nodes n)"
  using nodes_trans nodes_of_child self_in_nodes by blast

lemma first_child_of_type_child:
  "first_child_of_type ty n = Some c \<Longrightarrow> c \<in> set (children n) \<and> node_type c = ty"
  by (auto simp: first_child_of_type_def find_Some_iff)

lemma spans_okD:
  "spans_ok k tree \<Longrightarrow> n \<in> set (nodes tree) \<Longrightarrow>
     fst (start_point n) \<le> fst (end_point n) \<and> fst (end_point n) < k"
  by (simp add: spans_ok_def list_all_iff)

subsection \<open>The records of one node\<close>

lemma python_function_record_ok:
  assumes "extract_python_function n lines = Some fd"
    and "fst (start_point n) \<le> fst (end_point n)" and "fst (end_point n) < k"
  shows "line_span_ok k (VDict fd) \<and> complexity_ok (VDict fd)"
proof -
  obtain name params doc where
    "fd = [(''name'', VStr name),
           (''start_line'', VInt (int (fst (start_point n)) + 1)),
           (''end_line'', VInt (int (fst (end_point n)) + 1)),
           (''parameters'', VList (map VStr params)),
           (''docstring'', opt_str doc),
           (''complexity'', VInt (calculate_complexity n))]"
    using extract_python_function_shape[OF assms(1)] by blast
  then show ?thesis
    using assms(2,3) calculate_complexity_ge_1[of n]
    by (simp add: line_span_ok_def complexity_ok_def)
qed

lemma python_class_record_ok:
  assumes "extract_python_class n lines = Some cd"
    and "spans_ok k tree" and "n \<in> set (nodes tree)"
  shows "line_span_ok k (VDict cd) \<and>
     list_all (\<lambda>m. line_span_ok k m \<and> complexity_ok m) (methods_of (VDict cd))"
proof -
  let ?ms = "case first_child_of_type ''block'' n of
      None \<Rightarrow> [] | Some body_node \<Rightarrow> class_methods lines (children body_node)"
  obtain name where cd:
    "cd = [(''name'', VStr name),
           (''start_line'', VInt (int (fst (start_point n)) + 1)),
           (''end_line'', VInt (int (fst (end_point n)) + 1)),
           (''methods'', VList ?ms),
           (''attributes'', VList [])]"
    using extract_python_class_shape[OF assms(1)] by blast
  have span: "line_span_ok k (VDict cd)"
    using spans_okD[OF assms(2,3)] by (simp add: cd line_span_ok_def)
  have "line_span_ok k r \<and> complexity_ok r" if "r \<in> set ?ms" for r
  proof (cases "first_child_of_type ''block'' n")
    case None
    then show ?thesis using that by simp
  next
    case (Some body)
    then have "body \<in> set (nodes tree)"
      using first_child_of_type_child child_in_nodes assms(3) by blast
    moreover have "r \<in> set (class_methods lines (children body))"
      using that Some by simp
    then obtain c fd where "c \<in> set (children body)"
      and fd: "extract_python_function c lines = Some fd" "r = VDict fd"
      unfolding class_methods_iff by blast
    ultimately have "c \<in> set (nodes tree)"
      using child_in_nodes by blast
    then show ?thesis
      using python_function_record_ok[OF fd(1)] spans_okD[OF assms(2)] fd(2) by blast
  qed
  then have "list_all (\<lambda>m. line_span_ok k m \<and> complexity_ok m) ?ms"
    by (simp add: list_all_iff)
  moreover have "methods_of (VDict cd) = ?ms"
    by (simp add: cd methods_of_def get_list_def)
  ultimately show ?thesis using span by simp
qed

lemma js_function_record_ok:
  assumes "extract_js_function n lines = Some fd"
    and "fst (start_point n) \<le> fst (end_point n)" and "fst (end_point n) < k"
  shows "line_span_ok k (VDict fd) \<and> \<not> has_key ''complexity'' (VDict fd)"
proof -
  obtain name where
    "fd = [(''name'', VStr name),
           (''start_line'', VInt (int (fst (start_point n)) + 1)),
           (''end_line'', VInt (int (fst (end_point n)) + 1)),
           (''parameters'', VList []),
           (''type'', VStr (node_type n))]"
    using extract_js_function_shape[OF assms(1)] by blast
  then show ?thesis
    using assms(2,3) by (simp add: line_span_ok_def has_key_def)
qed

lemma js_class_record_ok:
  assumes "extract_js_class n lines = Some cd"
    and "fst (start_point n) \<le> fst (end_point n)" and "fst (end_point n) < k"
  shows "line_span_ok k (VDict cd)"
proof -
  obtain name where
    "cd = [(''name'', VStr name),
           (''start_line'', VInt (int (fst (start_point n)) + 1)),
           (''end_line'', VInt (int (fst (end_point n)) + 1)),
           (''methods'', VList [])]"
    using extract_js_class_shape[OF assms(1)] by blast
  then show ?thesis
    using assms(2,3) by (simp add: line_span_ok_def)
qed

subsection \<open>The records of a whole result\<close>

lemma records_for_iff:
  "r \<in> set (records_for key (concat (map rule ns))) \<longleftrightarrow>
     (\<exists>n \<in> set ns. \<exists>item. (key, item) \<in> set (rule n) \<and> r = VDict item)"
  by (fastforce simp: records_for_def image_iff)

lemma py_rule_functions:
  "(''functions'', item) \<in> set (py_rule lines n) \<longleftrightarrow>
     node_type n = ''function_definition'' \<and> extract_python_function n lines = Some item"
  by (auto simp: py_rule_def emit_def split: option.splits)

lemma py_rule_classes:
  "(''classes'', item) \<in> set (py_rule lines n) \<longleftrightarrow>
     node_type n = ''class_definition'' \<and> extract_python_class n lines = Some item"
  by (auto simp: py_rule_def emit_def split: option.splits)

lemma js_rule_functions:
  "(''functions'', item) \<in> set (js_rule lines n) \<Longrightarrow> extract_js_function n lines = Some item"
  by (auto simp: js_rule_def emit_def split: option.splits if_splits)

lemma js_rule_classes:
  "(''classes'', item) \<in> set (js_rule lines n) \<Longrightarrow> extract_js_class n lines = Some item"
  by (auto simp: js_rule_def emit_def split: option.splits if_splits)

lemma python_functions_iff:
  "r \<in> set (get_list (parse_python tree content) ''functions'') \<longleftrightarrow>
     (\<exists>n \<in> set (nodes tree). node_type n = ''function_definition'' \<and>
        (\<exists>fd. extract_python_function n (split_nl content) = Some fd \<and> r = VDict fd))"
  by (simp add: parse_python_list records_for_iff py_rule_functions)

lemma python_classes_iff:
  "r \<in> set (get_list (parse_python tree content) ''classes'') \<longleftrightarrow>
     (\<exists>n \<in> set (nodes tree). node_type n = ''class_definition'' \<and>
        (\<exists>cd. extract_python_class n (split_nl content) = Some cd \<and> r = VDict cd))"
  by (simp add: parse_python_list records_for_iff py_rule_classes)

lemma js_functions_from:
  "r \<in> set (get_list (parse_javascript tree content) ''functions'') \<Longrightarrow>
     \<exists>n \<in> set (nodes tree). \<exists>fd. extract_js_function n (split_nl content) = Some fd \<and> r = VDict fd"
  by (simp add: parse_javascript_list records_for_iff) (blast dest: js_rule_functions)

lemma js_classes_from:
  "r \<in> set (get_list (parse_javascript tree content) ''classes'') \<Longrightarrow>
     \<exists>n \<in> set (nodes tree). \<exists>cd. extract_js_class n (split_nl content) = Some cd \<and> r = VDict cd"
  by (simp add: parse_javascript_list records_for_iff) (blast dest: js_rule_classes)

subsection \<open>When extraction gives a record\<close>







section \<open>Line spans, complexity, docstrings and methods\<close>

text \<open>
  C6, as the claim states it, fails: the function records of a JavaScript or TypeScript
  file have no complexity at all.
\<close>

theorem javascript_function_record_has_no_complexity:
  "result_list (fst (parse_file ex_parsers ex_fs ''/repo/app.js'' None 0)) ''functions'' =
     [VDict [(''name'', VStr ''f''), (''start_line'', VInt 1), (''end_line'', VInt 1),
             (''parameters'', VList []), (''type'', VStr ''function_declaration'')]] \<and>
   \<not> has_key ''complexity''
     (VDict [(''name'', VStr ''f''), (''start_line'', VInt 1), (''end_line'', VInt 1),
             (''parameters'', VList []), (''type'', VStr ''function_declaration'')]) \<and>
   \<not> complexity_ok
     (VDict [(''name'', VStr ''f''), (''start_line'', VInt 1), (''end_line'', VInt 1),
             (''parameters'', VList []), (''type'', VStr ''function_declaration'')])"
  by code_simp

text \<open>
  C6, amended. Let the tree be one the parser can give for the content: every node
  starts no later than it ends, on a row of the content. Then every function and class
  record of the Python result and of the JavaScript/TypeScript result, and every
  method record inside a Python class record, has \<open>1 \<le> start_line \<le> end_line\<close>, both
  being one more than the zero-based rows of its node and at most the number of lines
  of the content; every Python function and method record has a complexity of at
  least 1; the JavaScript/TypeScript function records carry no complexity.
\<close>

theorem records_have_valid_spans:
  assumes "spans_ok (length (split_nl content)) tree"
  shows "list_all (\<lambda>f. line_span_ok (length (split_nl content)) f \<and> complexity_ok f)
           (get_list (parse_python tree content) ''functions'') \<and>
         list_all (\<lambda>c. line_span_ok (length (split_nl content)) c \<and>
             list_all (\<lambda>m. line_span_ok (length (split_nl content)) m \<and> complexity_ok m)
               (methods_of c))
           (get_list (parse_python tree content) ''classes'') \<and>
         list_all (\<lambda>f. line_span_ok (length (split_nl content)) f \<and> \<not> has_key ''complexity'' f)
           (get_list (parse_javascript tree content) ''functions'') \<and>
         list_all (line_span_ok (length (split_nl content)))
           (get_list (parse_javascript tree content) ''classes'')"
proof -
  let ?k = "length (split_nl content)"
  note ok = spans_okD[OF assms]
  have pf: "line_span_ok ?k r \<and> complexity_ok r"
    if "r \<in> set (get_list (parse_python tree content) ''functions'')" for r
    using that python_function_record_ok ok unfolding python_functions_iff by blast
  have pc: "line_span_ok ?k r \<and>
      list_all (\<lambda>m. line_span_ok ?k m \<and> complexity_ok m) (methods_of r)"
    if "r \<in> set (get_list (parse_python tree content) ''classes'')" for r
    using that python_class_record_ok[OF _ assms] unfolding python_classes_iff by blast
  have jf: "line_span_ok ?k r \<and> \<not> has_key ''complexity'' r"
    if "r \<in> set (get_list (parse_javascript tree content) ''functions'')" for r
    using js_functions_from[OF that] js_function_record_ok ok by blast
  have jc: "line_span_ok ?k r"
    if "r \<in> set (get_list (parse_javascript tree content) ''classes'')" for r
    using js_classes_from[OF that] js_class_record_ok ok by blast
  have A: "list_all (\<lambda>f. line_span_ok ?k f \<and> complexity_ok f)
      (get_list (parse_python tree content) ''functions'')"
    by (rule iffD2[OF list_all_iff]) (use pf in blast)
  have B: "list_all (\<lambda>c. line_span_ok ?k c \<and>
      list_all (\<lambda>m. line_span_ok ?k m \<and> complexity_ok m) (methods_of c))
      (get_list (parse_python tree content) ''classes'')"
    by (rule iffD2[OF list_all_iff]) (use pc in blast)
  have C: "list_all (\<lambda>f. line_span_ok ?k f \<and> \<not> has_key ''complexity'' f)
      (get_list (parse_javascript tree content) ''functions'')"
    by (rule iffD2[OF list_all_iff]) (use jf in blast)
  have D: "list_all (line_span_ok ?k) (get_list (parse_javascript tree content) ''classes'')"
    by (rule iffD2[OF list_all_iff]) (use jc in blast)
  from A B C D show ?thesis by blast
qed

theorem records_have_valid_spans_witness:
  "spans_ok (length (split_nl ex_content)) ex_module \<and>
   get_list (parse_python ex_module ex_content) ''functions'' =
     [VDict [(''name'', VStr ''m''), (''start_line'', VInt 2), (''end_line'', VInt 7),
             (''parameters'', VList [VStr ''self'', VStr ''x'']), (''docstring'', VNone),
             (''complexity'', VInt 3)]] \<and>
   list_all (\<lambda>f. line_span_ok (length (split_nl ex_content)) f \<and> complexity_ok f)
     (get_list (parse_python ex_module ex_content) ''functions'')"
proof -
  have a: "spans_ok (length (split_nl ex_content)) ex_module"
    by code_simp
  have b: "get_list (parse_python ex_module ex_content) ''functions'' =
     [VDict [(''name'', VStr ''m''), (''start_line'', VInt 2), (''end_line'', VInt 7),
             (''parameters'', VList [VStr ''self'', VStr ''x'']), (''docstring'', VNone),
             (''complexity'', VInt 3)]]"
    by code_simp
  show ?thesis
    using records_have_valid_spans[OF a] a b by blast
qed

text \<open>
  C7. The statement inspected for a docstring is the second child of the body block,
  not the first. A function whose only statement is the string literal \<open>"doc"\<close> gets the
  docstring None; so does a method whose first statement is that literal and whose
  second is an \<open>if\<close>; and a function whose second statement is the string literal
  \<open>"note"\<close>, after a \<open>pass\<close>, gets \<open>"note"\<close> as its docstring.
\<close>

theorem docstring_is_read_from_second_statement:
  "first_statement_docstring ex_plain_function ex_plain_lines =
     Some ([CHR 0x22] @ ''doc'' @ [CHR 0x22]) \<and>
   record_docstring (extract_python_function ex_plain_function ex_plain_lines) = Some VNone \<and>
   first_statement_docstring ex_method ex_lines = Some ([CHR 0x22] @ ''doc'' @ [CHR 0x22]) \<and>
   record_docstring (extract_python_function ex_method ex_lines) = Some VNone \<and>
   first_statement_docstring ex_late_function ex_late_lines = None \<and>
   record_docstring (extract_python_function ex_late_function ex_late_lines) =
     Some (VStr ([CHR 0x22] @ ''note'' @ [CHR 0x22]))"
  by code_simp




end
